theory Spec2Isabelle
  imports Main "HOL-Library.Sublist" "HOL-Library.AList"
begin

section \<open>Values, errors and the host\<close>

text \<open>
  The module \<^verbatim>\<open>export_preset.py\<close> is Python 2 glue code that runs inside the Shotgun
  Toolkit. Its own code is embedded below function by function. What it calls in the
  host (the template objects, the settings, the hook, the interpreter's \<^verbatim>\<open>repr\<close>) is not
  part of the repository and is taken as a parameter: the records \<open>template\<close> and \<open>app\<close>.
  Calls to the host's logger (\<^verbatim>\<open>log_debug\<close>, \<^verbatim>\<open>log_warning\<close>) return nothing and are left
  out.
\<close>

text \<open>A value of a setting in a raw preset dictionary (read from YAML).\<close>

datatype cfg_value = CNone | CBool bool | CStr string

text \<open>Python's truth value, as tested by \<^verbatim>\<open>if quicktime_template_name:\<close>.\<close>

fun py_truthy :: "cfg_value \<Rightarrow> bool" where
  "py_truthy CNone = False"
| "py_truthy (CBool b) = b"
| "py_truthy (CStr s) = (s \<noteq> [])"

text \<open>\<^verbatim>\<open>"%s" % v\<close> for a setting value.\<close>

fun cfg_str :: "cfg_value \<Rightarrow> string" where
  "cfg_str CNone = ''None''"
| "cfg_str (CBool b) = (if b then ''True'' else ''False'')"
| "cfg_str (CStr s) = s"

text \<open>A value of a template field, as the host's \<^verbatim>\<open>get_fields\<close> returns it.\<close>

datatype field_value = FStr string | FInt int

fun str_nat :: "nat \<Rightarrow> string" where
  "str_nat n =
     (if n < 10 then [''0123456789'' ! n]
      else str_nat (n div 10) @ [''0123456789'' ! (n mod 10)])"

declare str_nat.simps [simp del]

fun field_str :: "field_value \<Rightarrow> string" where
  "field_str (FStr s) = s"
| "field_str (FInt i) = (if i < 0 then ''-'' @ str_nat (nat (- i)) else str_nat (nat i))"

text \<open>
  \<^verbatim>\<open>"%s" % fields.get(key)\<close>: \<^verbatim>\<open>dict.get\<close> gives \<^verbatim>\<open>None\<close> for a missing key, and
  \<^verbatim>\<open>"%s" % None\<close> is the text \<^verbatim>\<open>None\<close>.
\<close>

fun fmt_s :: "field_value option \<Rightarrow> string" where
  "fmt_s None = ''None''"
| "fmt_s (Some v) = field_str v"

text \<open>
  The exceptions that can leave the module: \<^verbatim>\<open>TankError\<close> with its message, \<^verbatim>\<open>KeyError\<close>
  with the missing key, \<^verbatim>\<open>AttributeError\<close> with the attribute read from \<^verbatim>\<open>None\<close>.
\<close>

datatype error = TankError string | KeyError string | AttributeError string

type_synonym fields = "string \<rightharpoonup> field_value"

text \<open>
  A template object of the host: \<^verbatim>\<open>validate\<close>, \<^verbatim>\<open>get_fields\<close>, \<^verbatim>\<open>apply_fields\<close>, the
  attribute \<^verbatim>\<open>definition\<close> and the attribute \<^verbatim>\<open>keys\<close>, whose entries carry a
  \<^verbatim>\<open>format_spec\<close>.
\<close>

record template_key =
  format_spec :: string

record template =
  validate :: "string \<Rightarrow> bool"
  get_fields :: "string \<Rightarrow> error + fields"
  apply_fields :: "fields \<Rightarrow> error + string"
  template_definition :: string
  keys :: "string \<rightharpoonup> template_key"

type_synonym raw_preset_dict = "string \<rightharpoonup> cfg_value"

text \<open>
  The bundle \<^verbatim>\<open>self._app\<close>: \<^verbatim>\<open>get_template_by_name\<close> (which gives \<^verbatim>\<open>None\<close> for a name it
  does not know), \<^verbatim>\<open>get_template\<close> for a setting of the app, the two settings read with
  \<^verbatim>\<open>get_setting\<close>, the hook method \<^verbatim>\<open>get_video_preset\<close> of the settings hook (called
  with the preset name, the name pattern and the flag \<^verbatim>\<open>publish_linked\<close>),
  \<^verbatim>\<open>engine.preset_version\<close>, \<^verbatim>\<open>cache_location\<close> and \<^verbatim>\<open>instance_name\<close>; and the
  interpreter's \<^verbatim>\<open>repr\<close> of a raw preset dictionary, whose order of keys is the
  interpreter's.
\<close>

record app =
  get_template_by_name :: "cfg_value \<Rightarrow> template option"
  get_template :: "string \<Rightarrow> template option"
  shot_parent_entity_type :: string
  plate_presets :: "raw_preset_dict list"
  get_video_preset :: "cfg_value \<Rightarrow> string \<Rightarrow> bool \<Rightarrow> error + string"
  preset_version :: string
  cache_location :: string
  instance_name :: string
  repr_dict :: "raw_preset_dict \<Rightarrow> string"

text \<open>\<^verbatim>\<open>d[key]\<close> on a dictionary: \<^verbatim>\<open>KeyError\<close> when the key is missing.\<close>

definition getitem :: "('v option) \<Rightarrow> string \<Rightarrow> error + 'v" where
  "getitem r k = (case r of None \<Rightarrow> Inl (KeyError k) | Some v \<Rightarrow> Inr v)"


section \<open>ExportPreset\<close>

datatype export_preset = ExportPreset (raw_preset: raw_preset_dict)

text \<open>\<^verbatim>\<open>__repr__\<close>: \<^verbatim>\<open>"<ExportPreset %r>" % self._raw_preset\<close>.\<close>

definition repr_preset :: "app \<Rightarrow> export_preset \<Rightarrow> string" where
  "repr_preset a p = ''<ExportPreset '' @ repr_dict a (raw_preset p) @ ''>''"

text \<open>\<^verbatim>\<open>__get_publish_name(template, path)\<close>.\<close>

definition get_publish_name :: "template option \<Rightarrow> string \<Rightarrow> error + string" where
  "get_publish_name tmpl path =
     (case tmpl of
        None \<Rightarrow> Inr ''Unknown''
      | Some t \<Rightarrow>
          if \<not> validate t path then Inr ''Unknown''
          else (case get_fields t path of
                  Inl e \<Rightarrow> Inl e
                | Inr fs \<Rightarrow> Inr (fmt_s (fs ''Shot'') @ '', '' @ fmt_s (fs ''segment_name''))))"

definition get_name :: "export_preset \<Rightarrow> error + cfg_value" where
  "get_name p = getitem (raw_preset p ''name'') ''name''"

definition get_render_template :: "app \<Rightarrow> export_preset \<Rightarrow> error + template option" where
  "get_render_template a p =
     (case getitem (raw_preset p ''template'') ''template'' of
        Inl e \<Rightarrow> Inl e
      | Inr render_template_name \<Rightarrow> Inr (get_template_by_name a render_template_name))"

definition get_render_publish_type :: "export_preset \<Rightarrow> error + cfg_value" where
  "get_render_publish_type p = getitem (raw_preset p ''publish_type'') ''publish_type''"

definition get_render_publish_name :: "app \<Rightarrow> export_preset \<Rightarrow> string \<Rightarrow> error + string" where
  "get_render_publish_name a p path =
     (case get_render_template a p of
        Inl e \<Rightarrow> Inl e
      | Inr tmpl \<Rightarrow> get_publish_name tmpl path)"

definition get_quicktime_template :: "app \<Rightarrow> export_preset \<Rightarrow> error + template option" where
  "get_quicktime_template a p =
     (case getitem (raw_preset p ''quicktime_template'') ''quicktime_template'' of
        Inl e \<Rightarrow> Inl e
      | Inr quicktime_template_name \<Rightarrow>
          if py_truthy quicktime_template_name
          then Inr (get_template_by_name a quicktime_template_name)
          else Inr None)"

definition make_highres_quicktime :: "app \<Rightarrow> export_preset \<Rightarrow> error + bool" where
  "make_highres_quicktime a p =
     (case get_quicktime_template a p of
        Inl e \<Rightarrow> Inl e
      | Inr tmpl \<Rightarrow> Inr (tmpl \<noteq> None))"

text \<open>
  \<^verbatim>\<open>quicktime_path_from_render_path\<close>. The source reads the quicktime template twice, once
  for the test and once to apply the fields; a method called on \<^verbatim>\<open>None\<close> is an
  \<^verbatim>\<open>AttributeError\<close>.
\<close>

definition quicktime_path_from_render_path ::
  "app \<Rightarrow> export_preset \<Rightarrow> string \<Rightarrow> error + string" where
  "quicktime_path_from_render_path a p render_path =
     (case get_quicktime_template a p of
        Inl e \<Rightarrow> Inl e
      | Inr None \<Rightarrow>
          Inl (TankError (repr_preset a p @
            '': Cannot evaluate quicktime path because no quicktime template has been defined.''))
      | Inr (Some _) \<Rightarrow>
          (case get_render_template a p of
             Inl e \<Rightarrow> Inl e
           | Inr None \<Rightarrow> Inl (AttributeError ''get_fields'')
           | Inr (Some render_template) \<Rightarrow>
               (case get_fields render_template render_path of
                  Inl e \<Rightarrow> Inl e
                | Inr fs \<Rightarrow>
                    (case get_quicktime_template a p of
                       Inl e \<Rightarrow> Inl e
                     | Inr None \<Rightarrow> Inl (AttributeError ''apply_fields'')
                     | Inr (Some quicktime_template) \<Rightarrow> apply_fields quicktime_template fs))))"

definition get_quicktime_publish_type :: "export_preset \<Rightarrow> error + cfg_value" where
  "get_quicktime_publish_type p =
     getitem (raw_preset p ''quicktime_publish_type'') ''quicktime_publish_type''"

definition get_quicktime_publish_name :: "app \<Rightarrow> export_preset \<Rightarrow> string \<Rightarrow> error + string" where
  "get_quicktime_publish_name a p path =
     (case get_quicktime_template a p of
        Inl e \<Rightarrow> Inl e
      | Inr tmpl \<Rightarrow> get_publish_name tmpl path)"

definition upload_quicktime :: "export_preset \<Rightarrow> error + cfg_value" where
  "upload_quicktime p = getitem (raw_preset p ''upload_quicktime'') ''upload_quicktime''"


section \<open>ExportPresetHandler\<close>

text \<open>
  The dictionary \<^verbatim>\<open>self._export_presets\<close> is kept as an association list with one entry
  for each key: the order of the list is the order in which the interpreter iterates over
  the dictionary. The theorems about a handler hold for every such list, so for every
  order.
\<close>

datatype export_preset_handler =
  ExportPresetHandler (export_presets: "(cfg_value \<times> export_preset) list")

text \<open>The loop of \<^verbatim>\<open>__init__\<close>: a later preset of the same name replaces the earlier.\<close>

fun load_presets ::
  "raw_preset_dict list \<Rightarrow> (cfg_value \<times> export_preset) list \<Rightarrow>
   error + (cfg_value \<times> export_preset) list" where
  "load_presets [] d = Inr d"
| "load_presets (raw # rest) d =
     (case getitem (raw ''name'') ''name'' of
        Inl e \<Rightarrow> Inl e
      | Inr preset_name \<Rightarrow> load_presets rest (AList.update preset_name (ExportPreset raw) d))"

definition handler_init :: "app \<Rightarrow> error + export_preset_handler" where
  "handler_init a =
     (case load_presets (plate_presets a) [] of
        Inl e \<Rightarrow> Inl e
      | Inr d \<Rightarrow> Inr (ExportPresetHandler d))"

definition get_preset_names :: "export_preset_handler \<Rightarrow> cfg_value list" where
  "get_preset_names h = map fst (export_presets h)"

definition get_preset_by_name :: "export_preset_handler \<Rightarrow> cfg_value \<Rightarrow> error + export_preset" where
  "get_preset_by_name h preset_name =
     (if preset_name \<notin> set (map fst (export_presets h))
      then Inl (TankError (''Export preset manager cannot find preset '' @ [CHR 0x27] @
                  cfg_str preset_name @ [CHR 0x27] @ '' in the configuration!''))
      else getitem (map_of (export_presets h) preset_name) (cfg_str preset_name))"

text \<open>The loop of \<^verbatim>\<open>get_preset_for_render_path\<close> over the values of the dictionary.\<close>

fun scan_presets :: "app \<Rightarrow> string \<Rightarrow> export_preset list \<Rightarrow> error + export_preset option" where
  "scan_presets a path [] = Inr None"
| "scan_presets a path (preset_obj # rest) =
     (case get_render_template a preset_obj of
        Inl e \<Rightarrow> Inl e
      | Inr None \<Rightarrow> Inl (AttributeError ''validate'')
      | Inr (Some t) \<Rightarrow>
          if validate t path then Inr (Some preset_obj) else scan_presets a path rest)"

definition get_preset_for_render_path ::
  "app \<Rightarrow> export_preset_handler \<Rightarrow> string \<Rightarrow> error + export_preset option" where
  "get_preset_for_render_path a h path = scan_presets a path (map snd (export_presets h))"


section \<open>Strings and paths of the Python library\<close>

text \<open>
  \<^verbatim>\<open>s.replace(old, new)\<close>: every occurrence of \<open>old\<close>, found from the left and not
  overlapping, is replaced. With an empty \<open>old\<close>, \<open>new\<close> is put before every character
  and at the end.
\<close>

function py_replace :: "string \<Rightarrow> string \<Rightarrow> string \<Rightarrow> string" where
  "py_replace old new [] = (if old = [] then new else [])"
| "py_replace old new (c # cs) =
     (if old = [] then new @ c # py_replace old new cs
      else if prefix old (c # cs) then new @ py_replace old new (drop (length old) (c # cs))
      else c # py_replace old new cs)"
  by pat_completeness auto
termination
  by (relation "measure (\<lambda>(old, new, s). length s)") auto

text \<open>\<^verbatim>\<open>s.lstrip(chars)\<close>.\<close>

definition lstrip :: "string \<Rightarrow> string \<Rightarrow> string" where
  "lstrip chars s = dropWhile (\<lambda>c. c \<in> set chars) s"

text \<open>\<^verbatim>\<open>s.rfind(c)\<close> for a single character: the last index of \<open>c\<close>, or \<open>-1\<close>.\<close>

fun rfind :: "char \<Rightarrow> string \<Rightarrow> int" where
  "rfind c [] = - 1"
| "rfind c (x # xs) =
     (let r = rfind c xs in if 0 \<le> r then r + 1 else if x = c then 0 else - 1)"

text \<open>
  \<^verbatim>\<open>os.path.splitext\<close> of \<^verbatim>\<open>posixpath\<close> (separator \<^verbatim>\<open>/\<close>, no alternative separator): the
  extension starts at the last dot of the last component, unless that component has only
  dots before it. \<open>splitext_scan\<close> is the loop that skips the leading dots.
\<close>

function splitext_scan :: "string \<Rightarrow> int \<Rightarrow> int \<Rightarrow> (string \<times> string) option" where
  "splitext_scan p filenameIndex dotIndex =
     (if filenameIndex < dotIndex then
        (if p ! nat filenameIndex \<noteq> CHR ''.''
         then Some (take (nat dotIndex) p, drop (nat dotIndex) p)
         else splitext_scan p (filenameIndex + 1) dotIndex)
      else None)"
  by pat_completeness auto
termination
  by (relation "measure (\<lambda>(p, filenameIndex, dotIndex). nat (dotIndex - filenameIndex))") auto

declare splitext_scan.simps [simp del]

definition splitext :: "string \<Rightarrow> string \<times> string" where
  "splitext p =
     (let sepIndex = rfind CHR ''/'' p;
          dotIndex = rfind CHR ''.'' p
      in if dotIndex > sepIndex then
           (case splitext_scan p (sepIndex + 1) dotIndex of
              Some r \<Rightarrow> r
            | None \<Rightarrow> (p, []))
         else (p, []))"

text \<open>\<^verbatim>\<open>cgi.escape(s)\<close> without the quote flag.\<close>

definition cgi_escape :: "string \<Rightarrow> string" where
  "cgi_escape s =
     py_replace ''>'' ''&gt;'' (py_replace ''<'' ''&lt;'' (py_replace ''&'' ''&amp;'' s))"

text \<open>\<^verbatim>\<open>os.path.join\<close> of \<^verbatim>\<open>posixpath\<close>.\<close>

fun path_join :: "string \<Rightarrow> string list \<Rightarrow> string" where
  "path_join path [] = path"
| "path_join path (b # bs) =
     (if prefix ''/'' b then path_join b bs
      else if path = [] \<or> suffix ''/'' path then path_join (path @ b) bs
      else path_join (path @ ''/'' @ b) bs)"


section \<open>Flame templates and the export preset\<close>

text \<open>
  The substitutions in the loop body of \<^verbatim>\<open>__resolve_flame_templates\<close>, in the order of the
  source, on one template definition.
\<close>

definition substitute_tokens :: "string \<Rightarrow> string \<Rightarrow> string" where
  "substitute_tokens parent d =
     (let d = py_replace (''{'' @ parent @ ''}'') ''<name>'' d;
          d = py_replace ''{Shot}'' ''<shot name>'' d;
          d = py_replace ''{segment_name}'' ''<segment name>'' d;
          d = py_replace ''{version}'' ''<version>'' d;
          d = py_replace ''{SEQ}'' ''<frame>'' d;
          d = py_replace ''{YYYY}'' ''<YYYY>'' d;
          d = py_replace ''{MM}'' ''<MM>'' d;
          d = py_replace ''{DD}'' ''<DD>'' d;
          d = py_replace ''{hh}'' ''<hh>'' d;
          d = py_replace ''{mm}'' ''<mm>'' d;
          d = py_replace ''{ss}'' ''<ss>'' d;
          d = py_replace ''{width}'' ''<width>'' d;
          d = py_replace ''{height}'' ''<height>'' d
      in d)"

text \<open>The whole loop body: the substitutions, then the extension becomes \<^verbatim>\<open><ext>\<close>.\<close>

definition resolve_flame_template :: "string \<Rightarrow> string \<Rightarrow> string" where
  "resolve_flame_template parent d =
     (case splitext (substitute_tokens parent d) of (head, _) \<Rightarrow> head @ ''<ext>'')"

text \<open>Reading \<^verbatim>\<open>.definition\<close> of a template that may be \<^verbatim>\<open>None\<close>.\<close>

definition definition_of :: "template option \<Rightarrow> error + string" where
  "definition_of t =
     (case t of None \<Rightarrow> Inl (AttributeError ''definition'') | Some t \<Rightarrow> Inr (template_definition t))"

definition resolve_flame_templates :: "app \<Rightarrow> export_preset \<Rightarrow> error + (string \<rightharpoonup> string)" where
  "resolve_flame_templates a p =
     (case get_render_template a p of
        Inl e \<Rightarrow> Inl e
      | Inr rt \<Rightarrow>
     (case definition_of rt of
        Inl e \<Rightarrow> Inl e
      | Inr plate \<Rightarrow>
     (case definition_of (get_template a ''batch_template'') of
        Inl e \<Rightarrow> Inl e
      | Inr batch \<Rightarrow>
     (case definition_of (get_template a ''shot_clip_template'') of
        Inl e \<Rightarrow> Inl e
      | Inr shot_clip \<Rightarrow>
     (case definition_of (get_template a ''segment_clip_template'') of
        Inl e \<Rightarrow> Inl e
      | Inr segment_clip \<Rightarrow>
          Inr (map_option (resolve_flame_template (shot_parent_entity_type a)) \<circ>
               [''plate_template'' \<mapsto> plate,
                ''batch_template'' \<mapsto> batch,
                ''shot_clip_template'' \<mapsto> shot_clip,
                ''segment_clip_template'' \<mapsto> segment_clip]))))))"

definition nl :: string where
  "nl = [CHR 0x0A]"

text \<open>The text of the preset, after \<^verbatim>\<open>% preset_version\<close>.\<close>

definition xml_scaffold :: "string \<Rightarrow> string" where
  \<open>xml_scaffold v =
     ''<?xml version="1.0" encoding="UTF-8"?>'' @ nl @
     ''            <preset version="'' @ v @ ''">'' @ nl @
     ''               <type>sequence</type>'' @ nl @
     ''               <comment>Export profile for the Shotgun Flame export</comment>'' @ nl @
     ''               <sequence>'' @ nl @
     ''                  <fileType>NONE</fileType>'' @ nl @
     ''                  <namePattern />'' @ nl @
     ''                  <includeVideo>True</includeVideo>'' @ nl @
     ''                  <exportVideo>True</exportVideo>'' @ nl @
     ''                  <videoMedia>'' @ nl @
     ''                     <mediaFileType>image</mediaFileType>'' @ nl @
     ''                     <commit>Original</commit>'' @ nl @
     ''                     <flatten>NoChange</flatten>'' @ nl @
     ''                     <exportHandles>True</exportHandles>'' @ nl @
     ''                     <nbHandles>10</nbHandles>'' @ nl @
     ''                  </videoMedia>'' @ nl @
     ''                  <includeAudio>True</includeAudio>'' @ nl @
     ''                  <exportAudio>False</exportAudio>'' @ nl @
     ''                  <audioMedia>'' @ nl @
     ''                     <mediaFileType>audio</mediaFileType>'' @ nl @
     ''                     <commit>Original</commit>'' @ nl @
     ''                     <flatten>NoChange</flatten>'' @ nl @
     ''                     <exportHandles>True</exportHandles>'' @ nl @
     ''                     <nbHandles>10</nbHandles>'' @ nl @
     ''                  </audioMedia>'' @ nl @
     ''               </sequence>'' @ nl @
     ''            '' @ nl @
     ''               {VIDEO_EXPORT_PRESET}'' @ nl @
     ''               '' @ nl @
     ''               <name>'' @ nl @
     ''                  <framePadding>{FRAME_PADDING}</framePadding>'' @ nl @
     ''                  <startFrame>100</startFrame>'' @ nl @
     ''                  <useTimecode>False</useTimecode>'' @ nl @
     ''               </name>'' @ nl @
     ''               <createOpenClip>'' @ nl @
     ''                  <namePattern>{SEGMENT_CLIP_NAME_PATTERN}</namePattern>'' @ nl @
     ''                  <version>'' @ nl @
     ''                     <index>0</index>'' @ nl @
     ''                     <padding>{VERSION_PADDING}</padding>'' @ nl @
     ''                     <name>v&lt;version&gt;</name>'' @ nl @
     ''                  </version>'' @ nl @
     ''                  <batchSetup>'' @ nl @
     ''                     <namePattern>{BATCH_NAME_PATTERN}</namePattern>'' @ nl @
     ''                     <exportNamePattern>{SHOT_CLIP_NAME_PATTERN}</exportNamePattern>'' @ nl @
     ''                  </batchSetup>'' @ nl @
     ''               </createOpenClip>'' @ nl @
     ''               <reImport>'' @ nl @
     ''                  <namePattern />'' @ nl @
     ''               </reImport>'' @ nl @
     ''            </preset>'' @ nl @
     ''        ''\<close>

text \<open>
  \<^verbatim>\<open>__write_content_to_file\<close>: the path of the file and the content written to it. The
  file system itself (the folder that is created, the file handle) is the host's.
\<close>

definition write_content_to_file :: "app \<Rightarrow> string \<Rightarrow> string \<Rightarrow> string \<times> string" where
  "write_content_to_file a content file_name =
     (path_join (cache_location a) [instance_name a, file_name], content)"

text \<open>
  \<^verbatim>\<open>get_xml_path\<close>, in two parts. \<open>xml_with_templates\<close> is the source up to the last
  name pattern (the hook and the three patterns); \<open>get_xml_path\<close> goes on with the two
  paddings and writes the file. It returns the path together with the content written.
\<close>

definition xml_with_templates :: "app \<Rightarrow> export_preset \<Rightarrow> error + string" where
  "xml_with_templates a p =
     (case resolve_flame_templates a p of
        Inl e \<Rightarrow> Inl e
      | Inr resolved \<Rightarrow>
     (case getitem (resolved ''plate_template'') ''plate_template'' of
        Inl e \<Rightarrow> Inl e
      | Inr plate \<Rightarrow>
     (case get_name p of
        Inl e \<Rightarrow> Inl e
      | Inr preset_name \<Rightarrow>
     (case get_video_preset a preset_name (cgi_escape plate) True of
        Inl e \<Rightarrow> Inl e
      | Inr video_preset_xml \<Rightarrow>
     (let xml = xml_scaffold (preset_version a);
          xml = py_replace ''{VIDEO_EXPORT_PRESET}'' video_preset_xml xml
      in
     (case getitem (resolved ''segment_clip_template'') ''segment_clip_template'' of
        Inl e \<Rightarrow> Inl e
      | Inr segment_clip \<Rightarrow>
     (let xml = py_replace ''{SEGMENT_CLIP_NAME_PATTERN}'' (cgi_escape segment_clip) xml in
     (case getitem (resolved ''batch_template'') ''batch_template'' of
        Inl e \<Rightarrow> Inl e
      | Inr batch \<Rightarrow>
     (let xml = py_replace ''{BATCH_NAME_PATTERN}'' (cgi_escape batch) xml in
     (case getitem (resolved ''shot_clip_template'') ''shot_clip_template'' of
        Inl e \<Rightarrow> Inl e
      | Inr shot_clip \<Rightarrow>
          Inr (py_replace ''{SHOT_CLIP_NAME_PATTERN}'' (cgi_escape shot_clip) xml)))))))))))"

definition get_xml_path :: "app \<Rightarrow> export_preset \<Rightarrow> error + string \<times> string" where
  "get_xml_path a p =
     (case xml_with_templates a p of
        Inl e \<Rightarrow> Inl e
      | Inr xml \<Rightarrow>
     (case get_render_template a p of
        Inl e \<Rightarrow> Inl e
      | Inr None \<Rightarrow> Inl (AttributeError ''keys'')
      | Inr (Some t) \<Rightarrow>
     (case getitem (keys t ''SEQ'') ''SEQ'' of
        Inl e \<Rightarrow> Inl e
      | Inr sequence_key \<Rightarrow>
     (let xml = py_replace ''{FRAME_PADDING}'' (lstrip ''0'' (format_spec sequence_key)) xml in
     (case getitem (keys t ''version'') ''version'' of
        Inl e \<Rightarrow> Inl e
      | Inr version_key \<Rightarrow>
     (let xml = py_replace ''{VERSION_PADDING}'' (lstrip ''0'' (format_spec version_key)) xml
      in Inr (write_content_to_file a xml ''export_preset.xml'')))))))"


section \<open>Auxiliary notions\<close>

text \<open>The render template of a preset resolves and validates the path.\<close>

definition render_template_validates :: "app \<Rightarrow> string \<Rightarrow> export_preset \<Rightarrow> bool" where
  "render_template_validates a path p =
     (case get_render_template a p of Inr (Some t) \<Rightarrow> validate t path | _ \<Rightarrow> False)"

text \<open>Every preset of the dictionary is stored under its own name.\<close>

definition keyed_by_name :: "(cfg_value \<times> export_preset) list \<Rightarrow> bool" where
  "keyed_by_name d = (\<forall>(k, p) \<in> set d. raw_preset p ''name'' = Some k)"

text \<open>The table of the substitutions, in the order of the source.\<close>

definition flame_tokens :: "string \<Rightarrow> (string \<times> string) list" where
  "flame_tokens parent =
     [(''{'' @ parent @ ''}'', ''<name>''),
      (''{Shot}'', ''<shot name>''),
      (''{segment_name}'', ''<segment name>''),
      (''{version}'', ''<version>''),
      (''{SEQ}'', ''<frame>''),
      (''{YYYY}'', ''<YYYY>''),
      (''{MM}'', ''<MM>''),
      (''{DD}'', ''<DD>''),
      (''{hh}'', ''<hh>''),
      (''{mm}'', ''<mm>''),
      (''{ss}'', ''<ss>''),
      (''{width}'', ''<width>''),
      (''{height}'', ''<height>'')]"

text \<open>A substitution of a token in braces by a placeholder in angle brackets.\<close>

definition brace_rule :: "string \<times> string \<Rightarrow> bool" where
  "brace_rule rule =
     (case rule of (old, new) \<Rightarrow>
        (\<exists>q. old = CHR ''{'' # q @ ''}'' \<and> CHR ''<'' \<notin> set q) \<and>
        new \<noteq> [] \<and> hd new = CHR ''<'' \<and> CHR ''{'' \<notin> set new)"


text \<open>
  The text of \<open>xml_scaffold\<close> between its six placeholders, in the order in which they
  stand in it.
\<close>

definition scaffold_head :: "string \<Rightarrow> string" where
  \<open>scaffold_head v =
     ''<?xml version="1.0" encoding="UTF-8"?>'' @ nl @
     ''            <preset version="'' @ v @ ''">'' @ nl @
     ''               <type>sequence</type>'' @ nl @
     ''               <comment>Export profile for the Shotgun Flame export</comment>'' @ nl @
     ''               <sequence>'' @ nl @
     ''                  <fileType>NONE</fileType>'' @ nl @
     ''                  <namePattern />'' @ nl @
     ''                  <includeVideo>True</includeVideo>'' @ nl @
     ''                  <exportVideo>True</exportVideo>'' @ nl @
     ''                  <videoMedia>'' @ nl @
     ''                     <mediaFileType>image</mediaFileType>'' @ nl @
     ''                     <commit>Original</commit>'' @ nl @
     ''                     <flatten>NoChange</flatten>'' @ nl @
     ''                     <exportHandles>True</exportHandles>'' @ nl @
     ''                     <nbHandles>10</nbHandles>'' @ nl @
     ''                  </videoMedia>'' @ nl @
     ''                  <includeAudio>True</includeAudio>'' @ nl @
     ''                  <exportAudio>False</exportAudio>'' @ nl @
     ''                  <audioMedia>'' @ nl @
     ''                     <mediaFileType>audio</mediaFileType>'' @ nl @
     ''                     <commit>Original</commit>'' @ nl @
     ''                     <flatten>NoChange</flatten>'' @ nl @
     ''                     <exportHandles>True</exportHandles>'' @ nl @
     ''                     <nbHandles>10</nbHandles>'' @ nl @
     ''                  </audioMedia>'' @ nl @
     ''               </sequence>'' @ nl @
     ''            '' @ nl @
     ''               ''\<close>

definition scaffold_to_frame_padding :: "string" where
  \<open>scaffold_to_frame_padding =
     nl @ ''               '' @ nl @
     ''               <name>'' @ nl @
     ''                  <framePadding>''\<close>

definition scaffold_to_segment_clip :: "string" where
  \<open>scaffold_to_segment_clip =
     ''</framePadding>'' @ nl @
     ''                  <startFrame>100</startFrame>'' @ nl @
     ''                  <useTimecode>False</useTimecode>'' @ nl @
     ''               </name>'' @ nl @
     ''               <createOpenClip>'' @ nl @
     ''                  <namePattern>''\<close>

definition scaffold_to_version_padding :: "string" where
  \<open>scaffold_to_version_padding =
     ''</namePattern>'' @ nl @
     ''                  <version>'' @ nl @
     ''                     <index>0</index>'' @ nl @
     ''                     <padding>''\<close>

definition scaffold_to_batch :: "string" where
  \<open>scaffold_to_batch =
     ''</padding>'' @ nl @
     ''                     <name>v&lt;version&gt;</name>'' @ nl @
     ''                  </version>'' @ nl @
     ''                  <batchSetup>'' @ nl @
     ''                     <namePattern>''\<close>

definition scaffold_to_shot_clip :: "string" where
  \<open>scaffold_to_shot_clip =
     ''</namePattern>'' @ nl @
     ''                     <exportNamePattern>''\<close>

definition scaffold_tail :: "string" where
  \<open>scaffold_tail =
     ''</exportNamePattern>'' @ nl @
     ''                  </batchSetup>'' @ nl @
     ''               </createOpenClip>'' @ nl @
     ''               <reImport>'' @ nl @
     ''                  <namePattern />'' @ nl @
     ''               </reImport>'' @ nl @
     ''            </preset>'' @ nl @
     ''        ''\<close>


section \<open>An example host\<close>

text \<open>
  A small host on which the theorems below are instantiated: a render template that
  accepts one path, a quicktime template, a template whose paths carry no fields, and a
  preset that names the first two.
\<close>

definition demo_fields :: fields where
  "demo_fields = [''Shot'' \<mapsto> FStr ''sh010'', ''segment_name'' \<mapsto> FStr ''bg'', ''version'' \<mapsto> FInt 3]"

definition demo_render_template :: template where
  "demo_render_template =
     \<lparr> validate = (\<lambda>path. path = ''sh010/bg_sh010.v003.dpx''),
       get_fields = (\<lambda>path. if path = ''sh010/bg_sh010.v003.dpx'' then Inr demo_fields
                             else Inl (TankError ''Path does not match template'')),
       apply_fields = (\<lambda>fs. Inr (fmt_s (fs ''Shot'') @ ''/'' @ fmt_s (fs ''segment_name'') @ ''.dpx'')),
       template_definition = ''{Shot}/{segment_name}_{Shot}.v{version}.{SEQ}.dpx'',
       keys = [''SEQ'' \<mapsto> \<lparr>format_spec = ''04''\<rparr>, ''version'' \<mapsto> \<lparr>format_spec = ''03''\<rparr>] \<rparr>"

definition demo_quicktime_template :: template where
  "demo_quicktime_template =
     \<lparr> validate = (\<lambda>path. path = ''sh010/bg.mov''),
       get_fields = (\<lambda>path. if path = ''sh010/bg.mov'' then Inr Map.empty
                             else Inl (TankError ''Path does not match template'')),
       apply_fields = (\<lambda>fs. Inr (fmt_s (fs ''Shot'') @ ''/'' @ fmt_s (fs ''segment_name'') @ ''.mov'')),
       template_definition = ''{Shot}/{segment_name}.mov'',
       keys = Map.empty \<rparr>"

definition demo_raw :: raw_preset_dict where
  "demo_raw = [''name'' \<mapsto> CStr ''10 bit DPX'', ''publish_type'' \<mapsto> CStr ''Flame Render'',
               ''template'' \<mapsto> CStr ''flame_render'', ''quicktime_template'' \<mapsto> CStr ''flame_quicktime'',
               ''quicktime_publish_type'' \<mapsto> CStr ''Flame Quicktime'', ''upload_quicktime'' \<mapsto> CBool True]"

definition demo_app :: app where
  "demo_app =
     \<lparr> get_template_by_name = (\<lambda>n. if n = CStr ''flame_render'' then Some demo_render_template
                                   else if n = CStr ''flame_quicktime'' then Some demo_quicktime_template
                                   else None),
       get_template = (\<lambda>s. Some demo_quicktime_template),
       shot_parent_entity_type = ''Sequence'',
       plate_presets = [demo_raw],
       get_video_preset = (\<lambda>n pattern linked. Inr ''<video />''),
       preset_version = ''7'',
       cache_location = ''/cache'',
       instance_name = ''tk-flame-export'',
       repr_dict = (\<lambda>d. ''{...}'') \<rparr>"

definition demo_sparse_template :: template where
  "demo_sparse_template =
     \<lparr> validate = (\<lambda>path. True),
       get_fields = (\<lambda>path. Inr Map.empty),
       apply_fields = (\<lambda>fs. Inr ''out''),
       template_definition = ''{name}.clip'',
       keys = Map.empty \<rparr>"

definition demo_sparse_app :: app where
  "demo_sparse_app = demo_app \<lparr> get_template_by_name := (\<lambda>n. Some demo_sparse_template) \<rparr>"

definition demo_raw_exr :: raw_preset_dict where
  "demo_raw_exr = demo_raw(''name'' \<mapsto> CStr ''16 bit EXR'', ''quicktime_template'' \<mapsto> CStr '''')"

definition demo_handler :: export_preset_handler where
  "demo_handler =
     ExportPresetHandler
       [(CStr ''16 bit EXR'', ExportPreset demo_raw_exr), (CStr ''10 bit DPX'', ExportPreset demo_raw)]"

definition demo_app2 :: app where
  "demo_app2 = demo_app \<lparr> plate_presets := [demo_raw_exr, demo_raw_exr, demo_raw] \<rparr>"

definition demo_xml :: string where
  "demo_xml =
     py_replace ''{SHOT_CLIP_NAME_PATTERN}''
       (cgi_escape (resolve_flame_template ''Sequence'' ''{Shot}/{segment_name}.mov''))
       (py_replace ''{BATCH_NAME_PATTERN}''
          (cgi_escape (resolve_flame_template ''Sequence'' ''{Shot}/{segment_name}.mov''))
          (py_replace ''{SEGMENT_CLIP_NAME_PATTERN}''
             (cgi_escape (resolve_flame_template ''Sequence'' ''{Shot}/{segment_name}.mov''))
             (py_replace ''{VIDEO_EXPORT_PRESET}'' ''<video />'' (xml_scaffold ''7''))))"


section \<open>Properties of ExportPreset\<close>

lemma getitem_simps [simp]:
  "getitem None k = Inl (KeyError k)" "getitem (Some v) k = Inr v"
  by (simp_all add: getitem_def)

text \<open>
  Claim C1, as stated, fails: a raw preset without the key \<^verbatim>\<open>quicktime_template\<close> makes
  both \<^verbatim>\<open>make_highres_quicktime\<close> and \<^verbatim>\<open>get_quicktime_template\<close> raise \<^verbatim>\<open>KeyError\<close>, since
  the value is read with \<^verbatim>\<open>self._raw_preset["quicktime_template"]\<close>.
\<close>

theorem quicktime_template_missing_key_counterexample:
  "raw_preset (ExportPreset [''name'' \<mapsto> CStr ''10 bit DPX'', ''template'' \<mapsto> CStr ''flame_render''])
     ''quicktime_template'' = None
   \<and> make_highres_quicktime demo_app
        (ExportPreset [''name'' \<mapsto> CStr ''10 bit DPX'', ''template'' \<mapsto> CStr ''flame_render''])
       = Inl (KeyError ''quicktime_template'')
   \<and> get_quicktime_template demo_app
        (ExportPreset [''name'' \<mapsto> CStr ''10 bit DPX'', ''template'' \<mapsto> CStr ''flame_render''])
       = Inl (KeyError ''quicktime_template'')"
  by (simp add: make_highres_quicktime_def get_quicktime_template_def)

text \<open>
  Claim C1, amended: for a raw preset whose \<^verbatim>\<open>quicktime_template\<close> is a non-empty string,
  \<^verbatim>\<open>get_quicktime_template\<close> returns what the host's registry has under that name and
  \<^verbatim>\<open>make_highres_quicktime\<close> is true exactly when the registry has a template there; for
  the empty string \<^verbatim>\<open>get_quicktime_template\<close> returns \<^verbatim>\<open>None\<close> without an error and
  \<^verbatim>\<open>make_highres_quicktime\<close> is false; when the key is absent both raise \<^verbatim>\<open>KeyError\<close>.
\<close>

theorem make_highres_quicktime_by_value:
  "(raw_preset p ''quicktime_template'' = Some (CStr s) \<longrightarrow> s \<noteq> [] \<longrightarrow>
      get_quicktime_template a p = Inr (get_template_by_name a (CStr s)) \<and>
      make_highres_quicktime a p = Inr (get_template_by_name a (CStr s) \<noteq> None))
   \<and> (raw_preset p ''quicktime_template'' = Some (CStr []) \<longrightarrow>
      get_quicktime_template a p = Inr None \<and> make_highres_quicktime a p = Inr False)
   \<and> (raw_preset p ''quicktime_template'' = None \<longrightarrow>
      get_quicktime_template a p = Inl (KeyError ''quicktime_template'') \<and>
      make_highres_quicktime a p = Inl (KeyError ''quicktime_template''))"
  by (simp add: make_highres_quicktime_def get_quicktime_template_def)

theorem make_highres_quicktime_by_value_witness:
  "make_highres_quicktime demo_app (ExportPreset demo_raw) = Inr True
   \<and> get_quicktime_template demo_app (ExportPreset demo_raw) = Inr (Some demo_quicktime_template)
   \<and> make_highres_quicktime demo_app (ExportPreset (demo_raw(''quicktime_template'' \<mapsto> CStr ''''))) = Inr False
   \<and> get_quicktime_template demo_app (ExportPreset (demo_raw(''quicktime_template'' \<mapsto> CStr ''''))) = Inr None
   \<and> make_highres_quicktime demo_app (ExportPreset Map.empty) = Inl (KeyError ''quicktime_template'')"
  using make_highres_quicktime_by_value [of "ExportPreset demo_raw" "''flame_quicktime''" demo_app]
        make_highres_quicktime_by_value [of "ExportPreset (demo_raw(''quicktime_template'' \<mapsto> CStr ''''))" "''x''" demo_app]
        make_highres_quicktime_by_value [of "ExportPreset Map.empty" "''x''" demo_app]
  by (simp add: demo_raw_def demo_app_def)

text \<open>
  Claim C3, as stated, fails: for a raw preset without the key \<^verbatim>\<open>quicktime_template\<close>,
  which is a preset with no secondary template, \<^verbatim>\<open>quicktime_path_from_render_path\<close> raises
  \<^verbatim>\<open>KeyError\<close> and not \<^verbatim>\<open>TankError\<close>: the test of line 124 reads the value with
  \<^verbatim>\<open>self._raw_preset["quicktime_template"]\<close>.
\<close>

theorem quicktime_path_missing_key_counterexample:
  "raw_preset (ExportPreset [''name'' \<mapsto> CStr ''10 bit DPX'', ''template'' \<mapsto> CStr ''flame_render''])
     ''quicktime_template'' = None
   \<and> quicktime_path_from_render_path demo_app
        (ExportPreset [''name'' \<mapsto> CStr ''10 bit DPX'', ''template'' \<mapsto> CStr ''flame_render''])
        ''sh010/bg_sh010.v003.dpx''
       = Inl (KeyError ''quicktime_template'')
   \<and> quicktime_path_from_render_path demo_app
        (ExportPreset [''name'' \<mapsto> CStr ''10 bit DPX'', ''template'' \<mapsto> CStr ''flame_render''])
        ''sh010/bg_sh010.v003.dpx''
       \<noteq> Inl (TankError (repr_preset demo_app
            (ExportPreset [''name'' \<mapsto> CStr ''10 bit DPX'', ''template'' \<mapsto> CStr ''flame_render'']) @
            '': Cannot evaluate quicktime path because no quicktime template has been defined.''))"
  by (simp add: quicktime_path_from_render_path_def get_quicktime_template_def)

text \<open>
  Claim C3, amended: when the raw preset's \<^verbatim>\<open>quicktime_template\<close> is present and empty (or
  names no template of the host), \<^verbatim>\<open>quicktime_path_from_render_path\<close> raises \<^verbatim>\<open>TankError\<close>
  for every path; when the key is absent it raises \<^verbatim>\<open>KeyError\<close> for every path; when a
  quicktime template is configured, the result is that of extracting the fields of the
  path with the render template and applying them to the quicktime template (an error of
  either host call is passed on).
\<close>

theorem quicktime_path_from_render_path_cases:
  "(raw_preset p ''quicktime_template'' = Some v \<longrightarrow>
      (\<not> py_truthy v \<or> get_template_by_name a v = None) \<longrightarrow>
      quicktime_path_from_render_path a p render_path =
        Inl (TankError (repr_preset a p @
          '': Cannot evaluate quicktime path because no quicktime template has been defined.'')))
   \<and> (raw_preset p ''quicktime_template'' = None \<longrightarrow>
      quicktime_path_from_render_path a p render_path = Inl (KeyError ''quicktime_template''))
   \<and> (raw_preset p ''quicktime_template'' = Some v \<longrightarrow> py_truthy v \<longrightarrow>
      get_template_by_name a v = Some quicktime_template \<longrightarrow>
      raw_preset p ''template'' = Some n \<longrightarrow>
      get_template_by_name a n = Some render_template \<longrightarrow>
      quicktime_path_from_render_path a p render_path =
        (case get_fields render_template render_path of
           Inl e \<Rightarrow> Inl e
         | Inr fs \<Rightarrow> apply_fields quicktime_template fs))"
  by (auto simp add: quicktime_path_from_render_path_def get_quicktime_template_def
        get_render_template_def split: sum.splits)

theorem quicktime_path_from_render_path_cases_witness:
  "quicktime_path_from_render_path demo_app
     (ExportPreset (demo_raw(''quicktime_template'' \<mapsto> CStr ''''))) ''any/path'' =
     Inl (TankError
       ''<ExportPreset {...}>: Cannot evaluate quicktime path because no quicktime template has been defined.'')
   \<and> quicktime_path_from_render_path demo_app (ExportPreset Map.empty) ''any/path'' =
     Inl (KeyError ''quicktime_template'')
   \<and> quicktime_path_from_render_path demo_app (ExportPreset demo_raw) ''sh010/bg_sh010.v003.dpx'' =
     Inr ''sh010/bg.mov''"
  using quicktime_path_from_render_path_cases
          [of "ExportPreset (demo_raw(''quicktime_template'' \<mapsto> CStr ''''))" "CStr ''''" demo_app
              "''any/path''"]
        quicktime_path_from_render_path_cases
          [of "ExportPreset Map.empty" "CStr ''''" demo_app "''any/path''"]
        quicktime_path_from_render_path_cases
          [of "ExportPreset demo_raw" "CStr ''flame_quicktime''" demo_app
              "''sh010/bg_sh010.v003.dpx''" demo_quicktime_template "CStr ''flame_render''"
              demo_render_template]
  by (simp add: demo_raw_def demo_app_def demo_render_template_def demo_quicktime_template_def
        demo_fields_def repr_preset_def)

text \<open>
  Claim C4: for a preset whose render template the host resolves, and a host whose
  \<^verbatim>\<open>get_fields\<close> succeeds on a path that \<^verbatim>\<open>validate\<close> accepts, \<^verbatim>\<open>get_render_publish_name\<close>
  returns \<^verbatim>\<open>Unknown\<close> for a path that does not validate, the Shot field, a comma and a
  space, and the segment_name field for a path that does, and never raises.
\<close>

theorem get_render_publish_name_cases:
  assumes "raw_preset p ''template'' = Some n"
    and "get_template_by_name a n = Some t"
    and "validate t path \<longrightarrow> get_fields t path = Inr fs"
  shows "(\<not> validate t path \<longrightarrow> get_render_publish_name a p path = Inr ''Unknown'')
    \<and> (validate t path \<longrightarrow> fs ''Shot'' = Some shot \<longrightarrow> fs ''segment_name'' = Some segment \<longrightarrow>
         get_render_publish_name a p path = Inr (field_str shot @ '', '' @ field_str segment))
    \<and> (\<exists>name. get_render_publish_name a p path = Inr name)"
  using assms
  by (simp add: get_render_publish_name_def get_render_template_def get_publish_name_def)

theorem get_render_publish_name_cases_witness:
  "\<not> validate demo_render_template ''elsewhere/file.dpx''
   \<and> get_render_publish_name demo_app (ExportPreset demo_raw) ''elsewhere/file.dpx'' = Inr ''Unknown''
   \<and> validate demo_render_template ''sh010/bg_sh010.v003.dpx''
   \<and> get_render_publish_name demo_app (ExportPreset demo_raw) ''sh010/bg_sh010.v003.dpx'' =
       Inr ''sh010, bg''"
  using get_render_publish_name_cases
          [of "ExportPreset demo_raw" "CStr ''flame_render''" demo_app demo_render_template
              "''elsewhere/file.dpx''" demo_fields "FStr ''sh010''" "FStr ''bg''"]
        get_render_publish_name_cases
          [of "ExportPreset demo_raw" "CStr ''flame_render''" demo_app demo_render_template
              "''sh010/bg_sh010.v003.dpx''" demo_fields "FStr ''sh010''" "FStr ''bg''"]
  by (simp add: demo_raw_def demo_app_def demo_render_template_def demo_fields_def)

lemma comma_name_not_Unknown: "x @ '', '' @ y \<noteq> ''Unknown''"
proof
  assume eq: "x @ '', '' @ y = ''Unknown''"
  from arg_cong [OF eq, of "\<lambda>s. CHR '','' \<in> set s"] show False by simp
qed

text \<open>
  Claim C10: when the path validates and the extracted fields lack \<^verbatim>\<open>Shot\<close> or
  \<^verbatim>\<open>segment_name\<close>, \<^verbatim>\<open>get_render_publish_name\<close> and \<^verbatim>\<open>get_quicktime_publish_name\<close> do not
  fail and do not return \<^verbatim>\<open>Unknown\<close>: the missing field is printed as \<^verbatim>\<open>None\<close>.
\<close>

theorem publish_name_missing_fields:
  assumes "validate t path"
    and "get_fields t path = Inr fs"
    and "fs ''Shot'' = None \<or> fs ''segment_name'' = None"
  shows "(raw_preset p ''template'' = Some n \<longrightarrow> get_template_by_name a n = Some t \<longrightarrow>
          get_render_publish_name a p path =
            Inr (fmt_s (fs ''Shot'') @ '', '' @ fmt_s (fs ''segment_name'')))
    \<and> (raw_preset p ''quicktime_template'' = Some n \<longrightarrow> py_truthy n \<longrightarrow>
          get_template_by_name a n = Some t \<longrightarrow>
          get_quicktime_publish_name a p path =
            Inr (fmt_s (fs ''Shot'') @ '', '' @ fmt_s (fs ''segment_name'')))
    \<and> fmt_s (fs ''Shot'') @ '', '' @ fmt_s (fs ''segment_name'') \<noteq> ''Unknown''
    \<and> (fs ''Shot'' = None \<longrightarrow>
          fmt_s (fs ''Shot'') @ '', '' @ fmt_s (fs ''segment_name'') =
            ''None, '' @ fmt_s (fs ''segment_name''))
    \<and> (fs ''segment_name'' = None \<longrightarrow>
          fmt_s (fs ''Shot'') @ '', '' @ fmt_s (fs ''segment_name'') =
            fmt_s (fs ''Shot'') @ '', None'')"
  using assms
  by (simp add: get_render_publish_name_def get_quicktime_publish_name_def
        get_render_template_def get_quicktime_template_def get_publish_name_def
        comma_name_not_Unknown [simplified])

theorem publish_name_missing_fields_witness:
  "validate demo_sparse_template ''some/path''
   \<and> get_fields demo_sparse_template ''some/path'' = Inr Map.empty
   \<and> get_render_publish_name demo_sparse_app (ExportPreset demo_raw) ''some/path'' = Inr ''None, None''
   \<and> get_quicktime_publish_name demo_sparse_app (ExportPreset demo_raw) ''some/path'' = Inr ''None, None''"
  using publish_name_missing_fields
          [of demo_sparse_template "''some/path''" Map.empty "ExportPreset demo_raw"
              "CStr ''flame_render''" demo_sparse_app]
        publish_name_missing_fields
          [of demo_sparse_template "''some/path''" Map.empty "ExportPreset demo_raw"
              "CStr ''flame_quicktime''" demo_sparse_app]
  by (simp add: demo_raw_def demo_sparse_app_def demo_sparse_template_def)

text \<open>
  Claim C5: with the parent entity token \<^verbatim>\<open>Sequence\<close>, the plate template of the source's
  comment is translated to the Flame pattern given there.
\<close>

theorem resolve_plate_template_example:
  "resolve_flame_template ''Sequence''
     ''sequences/{Sequence}/{Shot}/editorial/plates/{segment_name}_{Shot}.v{version}.{SEQ}.dpx'' =
   ''sequences/<name>/<shot name>/editorial/plates/<segment name>_<shot name>.v<version>.<frame><ext>''"
  by code_simp


section \<open>Properties of ExportPresetHandler\<close>

text \<open>
  Claim C9: \<^verbatim>\<open>get_preset_by_name\<close> raises \<^verbatim>\<open>TankError\<close>, with a message that contains the
  name, for a name that is not a key of the dictionary, and returns the preset stored
  under exactly that key otherwise.
\<close>

theorem get_preset_by_name_cases:
  "(preset_name \<notin> set (get_preset_names h) \<longrightarrow>
      get_preset_by_name h preset_name =
        Inl (TankError (''Export preset manager cannot find preset '' @ [CHR 0x27] @
               cfg_str preset_name @ [CHR 0x27] @ '' in the configuration!'')))
   \<and> (preset_name \<in> set (get_preset_names h) \<longrightarrow>
      (\<exists>preset. map_of (export_presets h) preset_name = Some preset \<and>
                (preset_name, preset) \<in> set (export_presets h) \<and>
                get_preset_by_name h preset_name = Inr preset))
   \<and> sublist (cfg_str preset_name)
        (''Export preset manager cannot find preset '' @ [CHR 0x27] @
               cfg_str preset_name @ [CHR 0x27] @ '' in the configuration!'')"
proof (intro conjI impI)
  assume "preset_name \<notin> set (get_preset_names h)"
  then show "get_preset_by_name h preset_name =
        Inl (TankError (''Export preset manager cannot find preset '' @ [CHR 0x27] @
               cfg_str preset_name @ [CHR 0x27] @ '' in the configuration!''))"
    by (simp add: get_preset_by_name_def get_preset_names_def)
next
  assume a: "preset_name \<in> set (get_preset_names h)"
  then have "preset_name \<in> fst ` set (export_presets h)"
    by (simp add: get_preset_names_def)
  then obtain preset where m: "map_of (export_presets h) preset_name = Some preset"
    by (metis domD dom_map_of_conv_image_fst)
  then have "(preset_name, preset) \<in> set (export_presets h)"
    by (rule map_of_SomeD)
  moreover have "get_preset_by_name h preset_name = Inr preset"
    using a m by (simp add: get_preset_by_name_def get_preset_names_def)
  ultimately show "\<exists>preset. map_of (export_presets h) preset_name = Some preset \<and>
                (preset_name, preset) \<in> set (export_presets h) \<and>
                get_preset_by_name h preset_name = Inr preset"
    using m by blast
next
  show "sublist (cfg_str preset_name)
        (''Export preset manager cannot find preset '' @ [CHR 0x27] @
               cfg_str preset_name @ [CHR 0x27] @ '' in the configuration!'')"
    unfolding sublist_def by (metis append.assoc)
qed

theorem get_preset_by_name_cases_witness:
  "CStr ''8 bit DPX'' \<notin> set (get_preset_names (ExportPresetHandler [(CStr ''10 bit DPX'', ExportPreset demo_raw)]))
   \<and> get_preset_by_name (ExportPresetHandler [(CStr ''10 bit DPX'', ExportPreset demo_raw)]) (CStr ''8 bit DPX'')
      = Inl (TankError (''Export preset manager cannot find preset '' @ [CHR 0x27] @ ''8 bit DPX'' @ [CHR 0x27] @ '' in the configuration!''))
   \<and> get_preset_by_name (ExportPresetHandler [(CStr ''10 bit DPX'', ExportPreset demo_raw)]) (CStr ''10 bit DPX'')
      = Inr (ExportPreset demo_raw)"
  using get_preset_by_name_cases
          [of "CStr ''8 bit DPX''" "ExportPresetHandler [(CStr ''10 bit DPX'', ExportPreset demo_raw)]"]
        get_preset_by_name_cases
          [of "CStr ''10 bit DPX''" "ExportPresetHandler [(CStr ''10 bit DPX'', ExportPreset demo_raw)]"]
  by (simp add: get_preset_names_def)

lemma set_update_subset: "set (AList.update k v d) \<subseteq> insert (k, v) (set d)"
  by (induction d) auto

lemma keyed_by_name_update:
  "keyed_by_name d \<Longrightarrow> raw ''name'' = Some k \<Longrightarrow> keyed_by_name (AList.update k (ExportPreset raw) d)"
  unfolding keyed_by_name_def using set_update_subset [of k "ExportPreset raw" d] by auto

lemma load_presets_keyed:
  "load_presets raws d = Inr d' \<Longrightarrow> keyed_by_name d \<Longrightarrow> keyed_by_name d'"
proof (induction raws arbitrary: d)
  case Nil
  then show ?case by simp
next
  case (Cons raw raws)
  show ?case
  proof (cases "raw ''name''")
    case None
    with Cons.prems show ?thesis by simp
  next
    case (Some k)
    with Cons.prems have "load_presets raws (AList.update k (ExportPreset raw) d) = Inr d'"
      by simp
    moreover have "keyed_by_name (AList.update k (ExportPreset raw) d)"
      using Cons.prems(2) Some by (rule keyed_by_name_update)
    ultimately show ?thesis by (rule Cons.IH)
  qed
qed

text \<open>
  Claim C8: for the handler built by \<^verbatim>\<open>__init__\<close>, every name returned by
  \<^verbatim>\<open>get_preset_names\<close> is found by \<^verbatim>\<open>get_preset_by_name\<close>, and the preset found has that
  name. The handler \<open>h\<close> holds the dictionary that \<^verbatim>\<open>__init__\<close> builds, in any order of
  iteration.
\<close>

theorem preset_name_round_trip:
  assumes "handler_init a = Inr h0"
    and "map_of (export_presets h) = map_of (export_presets h0)"
    and "preset_name \<in> set (get_preset_names h)"
  shows "\<exists>preset. get_preset_by_name h preset_name = Inr preset \<and> get_name preset = Inr preset_name"
proof -
  from assms(1) have "load_presets (plate_presets a) [] = Inr (export_presets h0)"
    by (auto simp add: handler_init_def split: sum.splits)
  then have keyed: "keyed_by_name (export_presets h0)"
    by (rule load_presets_keyed) (simp add: keyed_by_name_def)
  from assms(3) have "preset_name \<in> fst ` set (export_presets h)"
    by (simp add: get_preset_names_def)
  then obtain preset where m: "map_of (export_presets h) preset_name = Some preset"
    by (metis domD dom_map_of_conv_image_fst)
  with assms(2) have "map_of (export_presets h0) preset_name = Some preset"
    by simp
  then have "(preset_name, preset) \<in> set (export_presets h0)"
    by (rule map_of_SomeD)
  with keyed have "raw_preset preset ''name'' = Some preset_name"
    by (auto simp add: keyed_by_name_def)
  then have "get_name preset = Inr preset_name"
    by (simp add: get_name_def)
  moreover have "get_preset_by_name h preset_name = Inr preset"
    using assms(3) m by (simp add: get_preset_by_name_def get_preset_names_def)
  ultimately show ?thesis by blast
qed

theorem preset_name_round_trip_witness:
  "handler_init demo_app2 = Inr demo_handler
   \<and> get_preset_names (ExportPresetHandler (rev (export_presets demo_handler))) =
       [CStr ''10 bit DPX'', CStr ''16 bit EXR'']
   \<and> (\<exists>preset. get_preset_by_name (ExportPresetHandler (rev (export_presets demo_handler)))
                  (CStr ''10 bit DPX'') = Inr preset \<and>
                get_name preset = Inr (CStr ''10 bit DPX''))
   \<and> (\<exists>preset. get_preset_by_name demo_handler (CStr ''16 bit EXR'') = Inr preset \<and>
                get_name preset = Inr (CStr ''16 bit EXR''))"
proof -
  let ?h = "ExportPresetHandler (rev (export_presets demo_handler))"
  have init: "handler_init demo_app2 = Inr demo_handler"
    by (simp add: handler_init_def demo_app2_def demo_app_def demo_handler_def demo_raw_exr_def
          demo_raw_def)
  have same: "map_of (export_presets ?h) = map_of (export_presets demo_handler)"
    by (rule ext) (simp add: demo_handler_def)
  have names: "get_preset_names ?h = [CStr ''10 bit DPX'', CStr ''16 bit EXR'']"
    by (simp add: get_preset_names_def demo_handler_def)
  then have dpx: "CStr ''10 bit DPX'' \<in> set (get_preset_names ?h)"
    by simp
  have exr: "CStr ''16 bit EXR'' \<in> set (get_preset_names demo_handler)"
    by (simp add: get_preset_names_def demo_handler_def)
  from init names show ?thesis
    using preset_name_round_trip [OF init same dpx] preset_name_round_trip [OF init refl exr]
    by blast
qed

lemma scan_presets_no_match:
  "\<forall>p \<in> set ps. \<exists>t. get_render_template a p = Inr (Some t) \<Longrightarrow>
   \<forall>p \<in> set ps. \<not> render_template_validates a path p \<Longrightarrow>
   scan_presets a path ps = Inr None"
  by (induction ps) (auto simp add: render_template_validates_def)

lemma scan_presets_first_match:
  "\<forall>p \<in> set ps. \<exists>t. get_render_template a p = Inr (Some t) \<Longrightarrow>
   \<exists>p \<in> set ps. render_template_validates a path p \<Longrightarrow>
   \<exists>before p after. ps = before @ p # after \<and>
      (\<forall>q \<in> set before. \<not> render_template_validates a path q) \<and>
      render_template_validates a path p \<and> scan_presets a path ps = Inr (Some p)"
proof (induction ps)
  case Nil
  then show ?case by simp
next
  case (Cons x xs)
  from Cons.prems(1) obtain t where t: "get_render_template a x = Inr (Some t)"
    by auto
  show ?case
  proof (cases "validate t path")
    case True
    with t have "render_template_validates a path x" "scan_presets a path (x # xs) = Inr (Some x)"
      by (simp_all add: render_template_validates_def)
    then have "x # xs = [] @ x # xs \<and> (\<forall>q \<in> set []. \<not> render_template_validates a path q) \<and>
      render_template_validates a path x \<and> scan_presets a path (x # xs) = Inr (Some x)"
      by simp
    then show ?thesis by blast
  next
    case False
    with t have nx: "\<not> render_template_validates a path x"
      and step: "scan_presets a path (x # xs) = scan_presets a path xs"
      by (simp_all add: render_template_validates_def)
    from Cons.prems(2) nx have "\<exists>p \<in> set xs. render_template_validates a path p"
      by auto
    moreover from Cons.prems(1) have "\<forall>p \<in> set xs. \<exists>t. get_render_template a p = Inr (Some t)"
      by simp
    ultimately obtain before p after where
      h: "xs = before @ p # after" "\<forall>q \<in> set before. \<not> render_template_validates a path q"
         "render_template_validates a path p" "scan_presets a path xs = Inr (Some p)"
      using Cons.IH by blast
    from h nx step have "x # xs = (x # before) @ p # after \<and>
       (\<forall>q \<in> set (x # before). \<not> render_template_validates a path q) \<and>
       render_template_validates a path p \<and> scan_presets a path (x # xs) = Inr (Some p)"
      by simp
    then show ?thesis by blast
  qed
qed

text \<open>
  Claim C7: when the render template of every loaded preset resolves,
  \<^verbatim>\<open>get_preset_for_render_path\<close> returns \<^verbatim>\<open>None\<close> if no preset's render template validates
  the path, and otherwise the first preset, in the order of iteration, whose render
  template validates it.
\<close>

theorem get_preset_for_render_path_first_match:
  assumes "\<forall>p \<in> set (map snd (export_presets h)). \<exists>t. get_render_template a p = Inr (Some t)"
  shows "((\<forall>p \<in> set (map snd (export_presets h)). \<not> render_template_validates a path p) \<longrightarrow>
            get_preset_for_render_path a h path = Inr None)
    \<and> ((\<exists>p \<in> set (map snd (export_presets h)). render_template_validates a path p) \<longrightarrow>
         (\<exists>before preset after.
            map snd (export_presets h) = before @ preset # after \<and>
            (\<forall>q \<in> set before. \<not> render_template_validates a path q) \<and>
            render_template_validates a path preset \<and>
            get_preset_for_render_path a h path = Inr (Some preset)))"
  unfolding get_preset_for_render_path_def
  using scan_presets_no_match [OF assms] scan_presets_first_match [OF assms]
  by blast

theorem get_preset_for_render_path_first_match_witness:
  "get_preset_for_render_path demo_app demo_handler ''elsewhere/file.dpx'' = Inr None
   \<and> get_preset_for_render_path demo_app demo_handler ''sh010/bg_sh010.v003.dpx'' =
       Inr (Some (ExportPreset demo_raw_exr))"
proof -
  have resolves: "\<forall>p \<in> set (map snd (export_presets demo_handler)).
      \<exists>t. get_render_template demo_app p = Inr (Some t)"
    by (simp add: demo_handler_def get_render_template_def demo_raw_exr_def demo_raw_def demo_app_def)
  have no: "\<forall>p \<in> set (map snd (export_presets demo_handler)).
      \<not> render_template_validates demo_app ''elsewhere/file.dpx'' p"
    by (simp add: demo_handler_def render_template_validates_def get_render_template_def
          demo_raw_exr_def demo_raw_def demo_app_def demo_render_template_def)
  have yes: "render_template_validates demo_app ''sh010/bg_sh010.v003.dpx'' (ExportPreset demo_raw_exr)"
    by (simp add: render_template_validates_def get_render_template_def
          demo_raw_exr_def demo_raw_def demo_app_def demo_render_template_def)
  have first: "get_preset_for_render_path demo_app demo_handler ''sh010/bg_sh010.v003.dpx'' =
       Inr (Some (ExportPreset demo_raw_exr))"
  proof -
    from yes have "\<exists>p \<in> set (map snd (export_presets demo_handler)).
        render_template_validates demo_app ''sh010/bg_sh010.v003.dpx'' p"
      by (simp add: demo_handler_def)
    with get_preset_for_render_path_first_match [OF resolves, of "''sh010/bg_sh010.v003.dpx''"]
    obtain before preset after where
      h: "map snd (export_presets demo_handler) = before @ preset # after"
         "\<forall>q \<in> set before. \<not> render_template_validates demo_app ''sh010/bg_sh010.v003.dpx'' q"
         "get_preset_for_render_path demo_app demo_handler ''sh010/bg_sh010.v003.dpx'' = Inr (Some preset)"
      by blast
    from h(1) have "before = [] \<or> (\<exists>rest. before = ExportPreset demo_raw_exr # rest)"
      by (cases before) (simp_all add: demo_handler_def)
    with h(2) yes have "before = []" by auto
    with h(1) have "preset = ExportPreset demo_raw_exr" by (simp add: demo_handler_def)
    with h(3) show ?thesis by simp
  qed
  from get_preset_for_render_path_first_match [OF resolves, of "''elsewhere/file.dpx''"] no first
  show ?thesis by blast
qed


section \<open>Properties of the translation to Flame templates\<close>

subsection \<open>Occurrences of a token after a substitution\<close>

lemma py_replace_absent: "old \<noteq> [] \<Longrightarrow> \<not> sublist old s \<Longrightarrow> py_replace old new s = s"
  by (induction s) (auto simp add: sublist_Cons_right)

lemma prefix_py_replace:
  assumes "old \<noteq> []" and "r \<noteq> []"
  shows "hd r \<notin> set w \<Longrightarrow> prefix w (py_replace old r s) \<Longrightarrow> prefix w s"
proof (induction s arbitrary: w)
  case Nil
  with assms show ?case by simp
next
  case (Cons c cs)
  note IH = Cons.IH and no_hd = Cons.prems(1) and pre = Cons.prems(2)
  show ?case
  proof (cases w)
    case Nil
    then show ?thesis by simp
  next
    case (Cons a w')
    show ?thesis
    proof (cases "prefix old (c # cs)")
      case True
      with assms pre have "prefix (a # w') (r @ py_replace old r (drop (length old) (c # cs)))"
        by (simp add: \<open>w = a # w'\<close>)
      with assms(2) have "a = hd r"
        by (cases r) simp_all
      with no_hd \<open>w = a # w'\<close> show ?thesis by simp
    next
      case False
      with assms pre \<open>w = a # w'\<close> have "a = c" and "prefix w' (py_replace old r cs)"
        by simp_all
      moreover from no_hd \<open>w = a # w'\<close> have "hd r \<notin> set w'" by simp
      ultimately show ?thesis
        using IH [of w'] \<open>w = a # w'\<close> by simp
    qed
  qed
qed

lemma sublist_py_replace:
  "old \<noteq> [] \<Longrightarrow> r \<noteq> [] \<Longrightarrow> hd r \<notin> set q \<Longrightarrow> hd r \<noteq> CHR ''}'' \<Longrightarrow> CHR ''{'' \<notin> set r \<Longrightarrow>
   sublist (CHR ''{'' # q @ ''}'') (py_replace old r s) \<Longrightarrow>
   sublist (CHR ''{'' # q @ ''}'') s \<and> old \<noteq> CHR ''{'' # q @ ''}''"
proof (induction old r s rule: py_replace.induct)
  case (1 old new)
  then show ?case by simp
next
  case (2 old new c cs)
  let ?T = "CHR ''{'' # q @ ''}''"
  note ne = "2.prems"(1) and r = "2.prems"(2-5) and occ0 = "2.prems"(6)
  note IH_match = "2.IH"(2) and IH_step = "2.IH"(3)
  show ?case
  proof (cases "prefix old (c # cs)")
    case True
    let ?X = "py_replace old new (drop (length old) (c # cs))"
    from occ0 ne True have occ: "sublist ?T (new @ ?X)" by simp
    have "sublist ?T ?X"
    proof -
      from occ consider "sublist ?T new" | "sublist ?T ?X"
        | xs1 xs2 where "?T = xs1 @ xs2" "suffix xs1 new" "prefix xs2 ?X"
        unfolding sublist_append by blast
      then show ?thesis
      proof cases
        case 1
        then have "set ?T \<subseteq> set new" by (rule set_mono_sublist)
        with r(4) show ?thesis by simp
      next
        case 2
        then show ?thesis .
      next
        case 3
        show ?thesis
        proof (cases xs1)
          case Nil
          with 3 have "prefix ?T ?X" by simp
          then show ?thesis by (rule prefix_imp_sublist)
        next
          case (Cons y ys)
          with 3(1) have "y = CHR ''{''" by simp
          moreover from 3(2) have "set xs1 \<subseteq> set new" by (rule set_mono_suffix)
          ultimately show ?thesis using r(4) Cons by simp
        qed
      qed
    qed
    with IH_match [OF ne True ne r] have inner: "sublist ?T (drop (length old) (c # cs))" and neq: "old \<noteq> ?T"
      by simp_all
    have "sublist (drop (length old) (c # cs)) (c # cs)"
      by (rule suffix_imp_sublist) (rule suffix_drop)
    with inner have "sublist ?T (c # cs)" by (rule sublist_order.order_trans)
    with neq show ?thesis by simp
  next
    case False
    let ?Y = "py_replace old new cs"
    from occ0 ne False have "sublist ?T (c # ?Y)" by simp
    then consider "prefix ?T (c # ?Y)" | "sublist ?T ?Y"
      unfolding sublist_Cons_right by blast
    then show ?thesis
    proof cases
      case 1
      then have c: "c = CHR ''{''" and "prefix (q @ ''}'') ?Y" by simp_all
      moreover from r have "hd new \<notin> set (q @ ''}'')" by simp
      ultimately have "prefix (q @ ''}'') cs"
        using prefix_py_replace [OF ne r(1)] by blast
      with c have p: "prefix ?T (c # cs)" by simp
      then have "sublist ?T (c # cs)" by (rule prefix_imp_sublist)
      moreover from p False have "old \<noteq> ?T" by auto
      ultimately show ?thesis by simp
    next
      case 2
      with IH_step [OF ne False ne r] have "sublist ?T cs" and "old \<noteq> ?T" by simp_all
      then show ?thesis by (simp add: sublist_Cons_right)
    qed
  qed
qed

lemma substitute_tokens_fold:
  "substitute_tokens parent d = fold (\<lambda>(old, new). py_replace old new) (flame_tokens parent) d"
  by (simp add: substitute_tokens_def flame_tokens_def)

lemma brace_rule_token: "brace_rule (CHR ''{'' # q @ ''}'', new) \<longleftrightarrow>
    CHR ''<'' \<notin> set q \<and> new \<noteq> [] \<and> hd new = CHR ''<'' \<and> CHR ''{'' \<notin> set new"
  by (auto simp add: brace_rule_def)

lemma flame_tokens_brace_rules:
  assumes "CHR ''<'' \<notin> set parent"
  shows "\<forall>rule \<in> set (flame_tokens parent). brace_rule rule"
proof -
  have "brace_rule (CHR ''{'' # parent @ ''}'', ''<name>'')"
    using assms by (simp add: brace_rule_token)
  moreover have "brace_rule (CHR ''{'' # ''Shot'' @ ''}'', ''<shot name>'')"
    "brace_rule (CHR ''{'' # ''segment_name'' @ ''}'', ''<segment name>'')"
    "brace_rule (CHR ''{'' # ''version'' @ ''}'', ''<version>'')"
    "brace_rule (CHR ''{'' # ''SEQ'' @ ''}'', ''<frame>'')"
    "brace_rule (CHR ''{'' # ''YYYY'' @ ''}'', ''<YYYY>'')"
    "brace_rule (CHR ''{'' # ''MM'' @ ''}'', ''<MM>'')"
    "brace_rule (CHR ''{'' # ''DD'' @ ''}'', ''<DD>'')"
    "brace_rule (CHR ''{'' # ''hh'' @ ''}'', ''<hh>'')"
    "brace_rule (CHR ''{'' # ''mm'' @ ''}'', ''<mm>'')"
    "brace_rule (CHR ''{'' # ''ss'' @ ''}'', ''<ss>'')"
    "brace_rule (CHR ''{'' # ''width'' @ ''}'', ''<width>'')"
    "brace_rule (CHR ''{'' # ''height'' @ ''}'', ''<height>'')"
    unfolding brace_rule_token by simp_all
  ultimately show ?thesis
    by (simp add: flame_tokens_def)
qed

lemma brace_rule_nonempty: "brace_rule (old, new) \<Longrightarrow> old \<noteq> []"
  by (auto simp add: brace_rule_def)

text \<open>One substitution removes its own token and brings back no token of another rule.\<close>

lemma brace_rule_step:
  assumes "brace_rule (old, new)" and "brace_rule (old', new')"
    and "sublist old (py_replace old' new' s)"
  shows "sublist old s \<and> old' \<noteq> old"
proof -
  from assms(1) obtain q where q: "old = CHR ''{'' # q @ ''}''" "CHR ''<'' \<notin> set q"
    by (auto simp add: brace_rule_def)
  from assms(2) have r: "old' \<noteq> []" "new' \<noteq> []" "hd new' = CHR ''<''" "CHR ''{'' \<notin> set new'"
    by (auto simp add: brace_rule_def)
  from r(3) q(2) have "hd new' \<notin> set q" "hd new' \<noteq> CHR ''}''" by simp_all
  with sublist_py_replace [OF r(1) r(2) _ _ r(4), of q s] assms(3) q(1)
  show ?thesis by simp
qed

lemma fold_brace_rules_absent:
  "\<forall>rule \<in> set rules. brace_rule rule \<Longrightarrow> (old, new) \<in> set rules \<Longrightarrow>
   \<not> sublist old (fold (\<lambda>(old, new). py_replace old new) rules s)"
proof (induction rules arbitrary: old new rule: rev_induct)
  case Nil
  then show ?case by simp
next
  case (snoc x xs)
  obtain old' new' where x: "x = (old', new')" by (cases x)
  from snoc.prems(1) x have bx: "brace_rule (old', new')" and bxs: "\<forall>rule \<in> set xs. brace_rule rule"
    by simp_all
  from snoc.prems have b: "brace_rule (old, new)" by auto
  show ?case
  proof
    assume "sublist old (fold (\<lambda>(old, new). py_replace old new) (xs @ [x]) s)"
    with x have "sublist old (py_replace old' new' (fold (\<lambda>(old, new). py_replace old new) xs s))"
      by simp
    with b bx have occ: "sublist old (fold (\<lambda>(old, new). py_replace old new) xs s)"
      and neq: "old' \<noteq> old"
      using brace_rule_step by blast+
    from snoc.prems(2) x neq have "(old, new) \<in> set xs" by auto
    with snoc.IH [OF bxs] occ show False by blast
  qed
qed

lemma fold_absent_identity:
  "\<forall>(old, new) \<in> set rules. old \<noteq> [] \<and> \<not> sublist old s \<Longrightarrow>
   fold (\<lambda>(old, new). py_replace old new) rules s = s"
  by (induction rules) (auto simp add: py_replace_absent)

text \<open>A token in braces that is not in \<open>s\<close> is not in a prefix of \<open>s\<close> followed by \<^verbatim>\<open><ext>\<close>.\<close>

lemma absent_prefix_ext:
  assumes "brace_rule (old, new)" and "\<not> sublist old s" and "prefix h s"
  shows "\<not> sublist old (h @ ''<ext>'')"
proof
  from assms(1) obtain q where q: "old = CHR ''{'' # q @ ''}''" "CHR ''<'' \<notin> set q"
    by (auto simp add: brace_rule_def)
  assume "sublist old (h @ ''<ext>'')"
  then consider "sublist old h" | "sublist old ''<ext>''"
    | xs1 xs2 where "old = xs1 @ xs2" "suffix xs1 h" "prefix xs2 ''<ext>''"
    unfolding sublist_append by blast
  then show False
  proof cases
    case 1
    moreover from assms(3) have "sublist h s" by (rule prefix_imp_sublist)
    ultimately have "sublist old s" by (rule sublist_order.order_trans)
    with assms(2) show False ..
  next
    case 2
    then have "set old \<subseteq> set ''<ext>''" by (rule set_mono_sublist)
    with q(1) show False by simp
  next
    case 3
    show False
    proof (cases xs2)
      case Nil
      with 3 have "suffix old h" by simp
      then have "sublist old h" by (rule suffix_imp_sublist)
      moreover from assms(3) have "sublist h s" by (rule prefix_imp_sublist)
      ultimately have "sublist old s" by (rule sublist_order.order_trans)
      with assms(2) show False ..
    next
      case (Cons y ys)
      with 3(3) have "y = CHR ''<''" by simp
      with Cons 3(1) have "CHR ''<'' \<in> set old" by simp
      with q show False by simp
    qed
  qed
qed

lemma rfind_index: "0 \<le> rfind c s \<Longrightarrow> nat (rfind c s) < length s \<and> s ! nat (rfind c s) = c"
proof (induction s)
  case Nil
  then show ?case by simp
next
  case (Cons x xs)
  show ?case
  proof (cases "0 \<le> rfind c xs")
    case True
    with Cons.IH have "nat (rfind c xs) < length xs" "xs ! nat (rfind c xs) = c" by simp_all
    moreover from True have "nat (rfind c xs + 1) = Suc (nat (rfind c xs))" by simp
    ultimately show ?thesis using True by (simp add: Let_def)
  next
    case False
    with Cons.prems show ?thesis by (simp add: Let_def split: if_splits)
  qed
qed

lemma splitext_scan_Some:
  "splitext_scan p i j = Some r \<Longrightarrow> r = (take (nat j) p, drop (nat j) p)"
proof (induction p i j rule: splitext_scan.induct)
  case (1 p filenameIndex dotIndex)
  from "1.prems" show ?case
    by (subst (asm) splitext_scan.simps) (auto split: if_splits dest: "1.IH")
qed

lemma splitext_parts:
  assumes "splitext p = (h, e)"
  shows "p = h @ e \<and> (e = [] \<or> hd e = CHR ''.'')"
proof (cases "rfind CHR ''.'' p > rfind CHR ''/'' p")
  case False
  with assms show ?thesis by (simp add: splitext_def Let_def)
next
  case True
  show ?thesis
  proof (cases "splitext_scan p (rfind CHR ''/'' p + 1) (rfind CHR ''.'' p)")
    case None
    with True assms show ?thesis by (simp add: splitext_def Let_def)
  next
    case (Some r)
    then have r: "r = (take (nat (rfind CHR ''.'' p)) p, drop (nat (rfind CHR ''.'' p)) p)"
      by (rule splitext_scan_Some)
    with True Some assms have h: "h = take (nat (rfind CHR ''.'' p)) p"
      and e: "e = drop (nat (rfind CHR ''.'' p)) p"
      by (simp_all add: splitext_def Let_def)
    have "- 1 \<le> rfind CHR ''/'' p" by (induction p) (auto simp add: Let_def)
    with True have "0 \<le> rfind CHR ''.'' p" by simp
    then have "nat (rfind CHR ''.'' p) < length p" "p ! nat (rfind CHR ''.'' p) = CHR ''.''"
      using rfind_index by blast+
    then have "hd (drop (nat (rfind CHR ''.'' p)) p) = CHR ''.''"
      by (simp add: hd_drop_conv_nth)
    with h e show ?thesis by simp
  qed
qed

lemma substitute_tokens_resolved:
  assumes "CHR ''<'' \<notin> set parent"
  shows "substitute_tokens parent (resolve_flame_template parent d) = resolve_flame_template parent d"
proof -
  let ?s = "substitute_tokens parent d"
  obtain h e where he: "splitext ?s = (h, e)" by (cases "splitext ?s")
  then have "?s = h @ e" using splitext_parts by blast
  then have pre: "prefix h ?s" by simp
  from he have res: "resolve_flame_template parent d = h @ ''<ext>''"
    by (simp add: resolve_flame_template_def)
  have rules: "\<forall>rule \<in> set (flame_tokens parent). brace_rule rule"
    using assms by (rule flame_tokens_brace_rules)
  have "\<forall>(old, new) \<in> set (flame_tokens parent). old \<noteq> [] \<and> \<not> sublist old (h @ ''<ext>'')"
  proof (clarify, rule conjI)
    fix old new
    assume mem: "(old, new) \<in> set (flame_tokens parent)"
    with rules have b: "brace_rule (old, new)" by blast
    then show "old \<noteq> []" by (rule brace_rule_nonempty)
    from rules mem have "\<not> sublist old ?s"
      unfolding substitute_tokens_fold by (rule fold_brace_rules_absent)
    with b show "\<not> sublist old (h @ ''<ext>'')"
      using pre by (rule absent_prefix_ext)
  qed
  then have "fold (\<lambda>(old, new). py_replace old new) (flame_tokens parent) (h @ ''<ext>'') = h @ ''<ext>''"
    by (rule fold_absent_identity)
  with res show ?thesis by (simp add: substitute_tokens_fold)
qed

text \<open>
  Claim C2, as stated, fails: translating the translated plate template of the source's
  comment once more removes \<^verbatim>\<open>.<frame>\<close>, which \<^verbatim>\<open>os.path.splitext\<close> now takes for the
  extension.
\<close>

theorem resolve_flame_template_twice_counterexample:
  "resolve_flame_template ''Sequence''
     (resolve_flame_template ''Sequence''
        ''sequences/{Sequence}/{Shot}/editorial/plates/{segment_name}_{Shot}.v{version}.{SEQ}.dpx'') =
     ''sequences/<name>/<shot name>/editorial/plates/<segment name>_<shot name>.v<version><ext>''
   \<and> resolve_flame_template ''Sequence''
     (resolve_flame_template ''Sequence''
        ''sequences/{Sequence}/{Shot}/editorial/plates/{segment_name}_{Shot}.v{version}.{SEQ}.dpx'') \<noteq>
     resolve_flame_template ''Sequence''
        ''sequences/{Sequence}/{Shot}/editorial/plates/{segment_name}_{Shot}.v{version}.{SEQ}.dpx''"
  by code_simp

text \<open>
  Claim C2, amended: for a parent entity token without the character \<^verbatim>\<open><\<close>, the token
  substitutions leave the output of the translation unchanged, so that a second
  translation only repeats the extension step: it gives the output without its extension,
  followed by \<^verbatim>\<open><ext>\<close>, and this always differs from the output.
\<close>

theorem resolve_flame_template_twice:
  assumes "CHR ''<'' \<notin> set parent"
  shows "substitute_tokens parent (resolve_flame_template parent d) = resolve_flame_template parent d
    \<and> resolve_flame_template parent (resolve_flame_template parent d) =
        fst (splitext (resolve_flame_template parent d)) @ ''<ext>''
    \<and> resolve_flame_template parent (resolve_flame_template parent d) \<noteq>
        resolve_flame_template parent d"
proof -
  let ?t = "resolve_flame_template parent d"
  have stable: "substitute_tokens parent ?t = ?t"
    using assms by (rule substitute_tokens_resolved)
  obtain h e where he: "splitext ?t = (h, e)" by (cases "splitext ?t")
  then have parts: "?t = h @ e" "e = [] \<or> hd e = CHR ''.''"
    using splitext_parts by blast+
  from stable he have twice: "resolve_flame_template parent ?t = h @ ''<ext>''"
    by (simp add: resolve_flame_template_def [of parent ?t])
  have "h @ ''<ext>'' \<noteq> ?t"
  proof
    assume "h @ ''<ext>'' = ?t"
    with parts(1) have "h @ ''<ext>'' = h @ e" by simp
    then have "e = ''<ext>''" by simp
    with parts(2) show False by simp
  qed
  with stable twice he show ?thesis by simp
qed

theorem resolve_flame_template_twice_witness:
  "CHR ''<'' \<notin> set ''Sequence''
   \<and> substitute_tokens ''Sequence'' (resolve_flame_template ''Sequence'' ''{Sequence}/{Shot}.v{version}.batch'')
       = resolve_flame_template ''Sequence'' ''{Sequence}/{Shot}.v{version}.batch''
   \<and> resolve_flame_template ''Sequence'' (resolve_flame_template ''Sequence'' ''{Sequence}/{Shot}.v{version}.batch'')
       = fst (splitext (resolve_flame_template ''Sequence'' ''{Sequence}/{Shot}.v{version}.batch'')) @ ''<ext>''
   \<and> resolve_flame_template ''Sequence'' (resolve_flame_template ''Sequence'' ''{Sequence}/{Shot}.v{version}.batch'')
       \<noteq> resolve_flame_template ''Sequence'' ''{Sequence}/{Shot}.v{version}.batch''"
proof -
  have "CHR ''<'' \<notin> set ''Sequence''" by simp
  then show ?thesis
    using resolve_flame_template_twice [of "''Sequence''" "''{Sequence}/{Shot}.v{version}.batch''"]
    by blast
qed

subsection \<open>Paddings\<close>

lemma lstrip_zero_split: "\<exists>n. spec = replicate n CHR ''0'' @ lstrip ''0'' spec"
proof -
  have "spec = takeWhile (\<lambda>c. c = CHR ''0'') spec @ dropWhile (\<lambda>c. c = CHR ''0'') spec"
    by simp
  moreover have "takeWhile (\<lambda>c. c = CHR ''0'') spec =
      replicate (length (takeWhile (\<lambda>c. c = CHR ''0'') spec)) CHR ''0''"
    by (induction spec) auto
  ultimately have "spec = replicate (length (takeWhile (\<lambda>c. c = CHR ''0'') spec)) CHR ''0'' @ lstrip ''0'' spec"
    by (simp add: lstrip_def)
  then show ?thesis ..
qed

lemma lstrip_zero_head: "\<not> prefix ''0'' (lstrip ''0'' spec)"
proof
  assume "prefix ''0'' (lstrip ''0'' spec)"
  then obtain rest where r: "dropWhile (\<lambda>c. c = CHR ''0'') spec = CHR ''0'' # rest"
    by (auto simp add: lstrip_def prefix_def)
  then have "dropWhile (\<lambda>c. c = CHR ''0'') spec \<noteq> []" by simp
  then have "hd (dropWhile (\<lambda>c. c = CHR ''0'') spec) \<noteq> CHR ''0''"
    by (rule hd_dropWhile)
  with r show False by simp
qed

subsection \<open>The scaffold with its placeholders filled\<close>

lemma xml_scaffold_pieces:
  "xml_scaffold v =
     scaffold_head v @ ''{VIDEO_EXPORT_PRESET}'' @ scaffold_to_frame_padding @ ''{FRAME_PADDING}'' @
     scaffold_to_segment_clip @ ''{SEGMENT_CLIP_NAME_PATTERN}'' @ scaffold_to_version_padding @
     ''{VERSION_PADDING}'' @ scaffold_to_batch @ ''{BATCH_NAME_PATTERN}'' @ scaffold_to_shot_clip @
     ''{SHOT_CLIP_NAME_PATTERN}'' @ scaffold_tail"
  by (simp add: xml_scaffold_def scaffold_head_def scaffold_to_frame_padding_def
        scaffold_to_segment_clip_def scaffold_to_version_padding_def scaffold_to_batch_def
        scaffold_to_shot_clip_def scaffold_tail_def)

lemma scaffold_pieces_no_brace:
  "CHR ''{'' \<notin> set v \<Longrightarrow> CHR ''{'' \<notin> set (scaffold_head v)"
  "CHR ''{'' \<notin> set scaffold_to_frame_padding"
  "CHR ''{'' \<notin> set scaffold_to_segment_clip"
  "CHR ''{'' \<notin> set scaffold_to_version_padding"
  "CHR ''{'' \<notin> set scaffold_to_batch"
  "CHR ''{'' \<notin> set scaffold_to_shot_clip"
  "CHR ''{'' \<notin> set scaffold_tail"
  by (simp_all add: scaffold_head_def scaffold_to_frame_padding_def
        scaffold_to_segment_clip_def scaffold_to_version_padding_def scaffold_to_batch_def
        scaffold_to_shot_clip_def scaffold_tail_def nl_def)

lemma py_replace_skip:
  "old \<noteq> [] \<Longrightarrow> hd old \<notin> set a \<Longrightarrow> py_replace old new (a @ b) = a @ py_replace old new b"
proof (induction a)
  case Nil
  then show ?case by simp
next
  case (Cons c cs)
  from Cons.prems have "\<not> prefix old (c # cs @ b)"
    by (cases old) auto
  with Cons show ?case by simp
qed

lemma py_replace_skip_all:
  "old \<noteq> [] \<Longrightarrow> hd old \<notin> set a \<Longrightarrow> py_replace old new a = a"
  using py_replace_skip [of old a new "[]"] by simp

text \<open>
  When neither the preset version nor the text put in by the hook, the three name
  patterns and the frame padding contain an opening brace, each placeholder of the
  scaffold receives its own value.
\<close>

lemma scaffold_substituted:
  assumes "CHR ''{'' \<notin> set v" "CHR ''{'' \<notin> set video" "CHR ''{'' \<notin> set segment_clip"
    "CHR ''{'' \<notin> set batch" "CHR ''{'' \<notin> set shot_clip" "CHR ''{'' \<notin> set frame_padding"
  shows "py_replace ''{VERSION_PADDING}'' version_padding
          (py_replace ''{FRAME_PADDING}'' frame_padding
            (py_replace ''{SHOT_CLIP_NAME_PATTERN}'' shot_clip
              (py_replace ''{BATCH_NAME_PATTERN}'' batch
                (py_replace ''{SEGMENT_CLIP_NAME_PATTERN}'' segment_clip
                  (py_replace ''{VIDEO_EXPORT_PRESET}'' video (xml_scaffold v)))))) =
     scaffold_head v @ video @ scaffold_to_frame_padding @ frame_padding @
     scaffold_to_segment_clip @ segment_clip @ scaffold_to_version_padding @
     version_padding @ scaffold_to_batch @ batch @ scaffold_to_shot_clip @
     shot_clip @ scaffold_tail"
  using assms scaffold_pieces_no_brace(1) [of v]
  by (simp add: xml_scaffold_pieces py_replace_skip py_replace_skip_all scaffold_pieces_no_brace(2-))

lemma set_py_replace: "old \<noteq> [] \<Longrightarrow> set (py_replace old new s) \<subseteq> set s \<union> set new"
proof (induction old new s rule: py_replace.induct)
  case (1 old new)
  then show ?case by simp
next
  case (2 old new c cs)
  show ?case
  proof (cases "prefix old (c # cs)")
    case True
    with "2.IH"(2) "2.prems"
    have "set (py_replace old new (drop (length old) (c # cs))) \<subseteq>
          set (drop (length old) (c # cs)) \<union> set new"
      by simp
    moreover have "set (drop (length old) (c # cs)) \<subseteq> set (c # cs)"
      by (rule set_drop_subset)
    ultimately show ?thesis using True "2.prems" by auto
  next
    case False
    with "2.IH"(3) "2.prems" show ?thesis by auto
  qed
qed

lemma cgi_escape_no_brace: "CHR ''{'' \<notin> set s \<Longrightarrow> CHR ''{'' \<notin> set (cgi_escape s)"
proof -
  assume s: "CHR ''{'' \<notin> set s"
  have "set (cgi_escape s) \<subseteq> set s \<union> set ''&amp;'' \<union> set ''&lt;'' \<union> set ''&gt;''"
    unfolding cgi_escape_def
    using set_py_replace [of "''>''" "''&gt;''" "py_replace ''<'' ''&lt;'' (py_replace ''&'' ''&amp;'' s)"]
      set_py_replace [of "''<''" "''&lt;''" "py_replace ''&'' ''&amp;'' s"]
      set_py_replace [of "''&''" "''&amp;''" s]
    by blast
  with s show ?thesis by auto
qed

lemma scaffold_tags:
  "suffix ''<framePadding>'' scaffold_to_frame_padding"
  "prefix ''</framePadding>'' scaffold_to_segment_clip"
  "suffix ''<padding>'' scaffold_to_version_padding"
  "prefix ''</padding>'' scaffold_to_batch"
  by (simp_all add: scaffold_to_frame_padding_def scaffold_to_segment_clip_def
        scaffold_to_version_padding_def scaffold_to_batch_def suffix_to_prefix)

lemma sublist_between:
  "suffix l a \<Longrightarrow> prefix r b \<Longrightarrow> sublist (l @ m @ r) (x @ a @ m @ b @ y)"
proof -
  assume "suffix l a" "prefix r b"
  then obtain a' b' where "a = a' @ l" "b = r @ b'"
    by (auto simp add: suffix_def prefix_def)
  then have "x @ a @ m @ b @ y = (x @ a') @ (l @ m @ r) @ (b' @ y)" by simp
  then show ?thesis unfolding sublist_def by blast
qed

lemma get_xml_path_content:
  assumes rt: "get_render_template a p = Inr (Some t)"
    and tb: "get_template a ''batch_template'' = Some batch_template"
    and tsc: "get_template a ''shot_clip_template'' = Some shot_clip_template"
    and tsg: "get_template a ''segment_clip_template'' = Some segment_clip_template"
    and nm: "get_name p = Inr preset_name"
    and hook: "get_video_preset a preset_name
        (cgi_escape (resolve_flame_template (shot_parent_entity_type a) (template_definition t)))
        True = Inr video"
    and ks: "keys t ''SEQ'' = Some sequence_key"
    and kv: "keys t ''version'' = Some version_key"
    and nb: "CHR ''{'' \<notin> set (preset_version a)" "CHR ''{'' \<notin> set video"
      "CHR ''{'' \<notin> set (resolve_flame_template (shot_parent_entity_type a)
                          (template_definition segment_clip_template))"
      "CHR ''{'' \<notin> set (resolve_flame_template (shot_parent_entity_type a)
                          (template_definition batch_template))"
      "CHR ''{'' \<notin> set (resolve_flame_template (shot_parent_entity_type a)
                          (template_definition shot_clip_template))"
      "CHR ''{'' \<notin> set (lstrip ''0'' (format_spec sequence_key))"
  shows "get_xml_path a p =
     Inr (path_join (cache_location a) [instance_name a, ''export_preset.xml''],
          scaffold_head (preset_version a) @ video @
          scaffold_to_frame_padding @ lstrip ''0'' (format_spec sequence_key) @
          scaffold_to_segment_clip @
          cgi_escape (resolve_flame_template (shot_parent_entity_type a)
                        (template_definition segment_clip_template)) @
          scaffold_to_version_padding @ lstrip ''0'' (format_spec version_key) @
          scaffold_to_batch @
          cgi_escape (resolve_flame_template (shot_parent_entity_type a)
                        (template_definition batch_template)) @
          scaffold_to_shot_clip @
          cgi_escape (resolve_flame_template (shot_parent_entity_type a)
                        (template_definition shot_clip_template)) @
          scaffold_tail)"
proof -
  let ?r = "resolve_flame_template (shot_parent_entity_type a)"
  have xml: "xml_with_templates a p =
      Inr (py_replace ''{SHOT_CLIP_NAME_PATTERN}'' (cgi_escape (?r (template_definition shot_clip_template)))
            (py_replace ''{BATCH_NAME_PATTERN}'' (cgi_escape (?r (template_definition batch_template)))
              (py_replace ''{SEGMENT_CLIP_NAME_PATTERN}''
                 (cgi_escape (?r (template_definition segment_clip_template)))
                (py_replace ''{VIDEO_EXPORT_PRESET}'' video (xml_scaffold (preset_version a))))))"
    using rt tb tsc tsg nm hook
    by (simp add: xml_with_templates_def resolve_flame_templates_def definition_of_def Let_def)
  have "py_replace ''{VERSION_PADDING}'' (lstrip ''0'' (format_spec version_key))
          (py_replace ''{FRAME_PADDING}'' (lstrip ''0'' (format_spec sequence_key))
            (py_replace ''{SHOT_CLIP_NAME_PATTERN}'' (cgi_escape (?r (template_definition shot_clip_template)))
              (py_replace ''{BATCH_NAME_PATTERN}'' (cgi_escape (?r (template_definition batch_template)))
                (py_replace ''{SEGMENT_CLIP_NAME_PATTERN}''
                   (cgi_escape (?r (template_definition segment_clip_template)))
                  (py_replace ''{VIDEO_EXPORT_PRESET}'' video (xml_scaffold (preset_version a))))))) =
     scaffold_head (preset_version a) @ video @
     scaffold_to_frame_padding @ lstrip ''0'' (format_spec sequence_key) @
     scaffold_to_segment_clip @ cgi_escape (?r (template_definition segment_clip_template)) @
     scaffold_to_version_padding @ lstrip ''0'' (format_spec version_key) @
     scaffold_to_batch @ cgi_escape (?r (template_definition batch_template)) @
     scaffold_to_shot_clip @ cgi_escape (?r (template_definition shot_clip_template)) @
     scaffold_tail"
    using nb by (intro scaffold_substituted cgi_escape_no_brace)
  with xml rt ks kv show ?thesis
    by (simp add: get_xml_path_def write_content_to_file_def)
qed

text \<open>
  Claim C6: the frame padding and the version padding written into the XML are the
  \<^verbatim>\<open>format_spec\<close> of the \<^verbatim>\<open>SEQ\<close> key and of the \<^verbatim>\<open>version\<close> key without their leading
  zeroes: \<^verbatim>\<open>04\<close> gives \<^verbatim>\<open>4\<close>, and \<^verbatim>\<open>0\<close> gives the empty string. The values replace the
  placeholders \<^verbatim>\<open>{FRAME_PADDING}\<close> and \<^verbatim>\<open>{VERSION_PADDING}\<close>; when no text put into the
  scaffold before them contains an opening brace, they stand between the tags
  \<^verbatim>\<open>framePadding\<close> and \<^verbatim>\<open>padding\<close> of the file written.
\<close>

theorem padding_strips_leading_zeroes:
  "lstrip ''0'' ''04'' = ''4'' \<and> lstrip ''0'' ''0'' = []
   \<and> py_replace ''{FRAME_PADDING}'' (lstrip ''0'' ''04'') ''<framePadding>{FRAME_PADDING}</framePadding>''
       = ''<framePadding>4</framePadding>''
   \<and> py_replace ''{FRAME_PADDING}'' (lstrip ''0'' ''0'') ''<framePadding>{FRAME_PADDING}</framePadding>''
       = ''<framePadding></framePadding>''
   \<and> (\<exists>n. spec = replicate n CHR ''0'' @ lstrip ''0'' spec)
   \<and> \<not> prefix ''0'' (lstrip ''0'' spec)
   \<and> (xml_with_templates a p = Inr xml \<longrightarrow> get_render_template a p = Inr (Some t) \<longrightarrow>
       keys t ''SEQ'' = Some sequence_key \<longrightarrow> keys t ''version'' = Some version_key \<longrightarrow>
       get_xml_path a p =
         Inr (path_join (cache_location a) [instance_name a, ''export_preset.xml''],
              py_replace ''{VERSION_PADDING}'' (lstrip ''0'' (format_spec version_key))
               (py_replace ''{FRAME_PADDING}'' (lstrip ''0'' (format_spec sequence_key)) xml)))
   \<and> (get_render_template a p = Inr (Some t) \<longrightarrow>
       keys t ''SEQ'' = Some sequence_key \<longrightarrow> keys t ''version'' = Some version_key \<longrightarrow>
       get_template a ''batch_template'' = Some batch_template \<longrightarrow>
       get_template a ''shot_clip_template'' = Some shot_clip_template \<longrightarrow>
       get_template a ''segment_clip_template'' = Some segment_clip_template \<longrightarrow>
       get_name p = Inr preset_name \<longrightarrow>
       get_video_preset a preset_name
         (cgi_escape (resolve_flame_template (shot_parent_entity_type a) (template_definition t)))
         True = Inr video \<longrightarrow>
       CHR ''{'' \<notin> set (preset_version a) \<longrightarrow> CHR ''{'' \<notin> set video \<longrightarrow>
       CHR ''{'' \<notin> set (resolve_flame_template (shot_parent_entity_type a)
                          (template_definition segment_clip_template)) \<longrightarrow>
       CHR ''{'' \<notin> set (resolve_flame_template (shot_parent_entity_type a)
                          (template_definition batch_template)) \<longrightarrow>
       CHR ''{'' \<notin> set (resolve_flame_template (shot_parent_entity_type a)
                          (template_definition shot_clip_template)) \<longrightarrow>
       CHR ''{'' \<notin> set (lstrip ''0'' (format_spec sequence_key)) \<longrightarrow>
       (\<exists>path content. get_xml_path a p = Inr (path, content) \<and>
          sublist (''<framePadding>'' @ lstrip ''0'' (format_spec sequence_key) @ ''</framePadding>'')
            content \<and>
          sublist (''<padding>'' @ lstrip ''0'' (format_spec version_key) @ ''</padding>'') content))"
proof (intro conjI impI)
  show "lstrip ''0'' ''04'' = ''4''" by (simp add: lstrip_def)
  show "lstrip ''0'' ''0'' = []" by (simp add: lstrip_def)
  show "py_replace ''{FRAME_PADDING}'' (lstrip ''0'' ''04'') ''<framePadding>{FRAME_PADDING}</framePadding>''
       = ''<framePadding>4</framePadding>''" by code_simp
  show "py_replace ''{FRAME_PADDING}'' (lstrip ''0'' ''0'') ''<framePadding>{FRAME_PADDING}</framePadding>''
       = ''<framePadding></framePadding>''" by code_simp
  show "\<exists>n. spec = replicate n CHR ''0'' @ lstrip ''0'' spec" by (rule lstrip_zero_split)
  show "\<not> prefix ''0'' (lstrip ''0'' spec)" by (rule lstrip_zero_head)
next
  assume "xml_with_templates a p = Inr xml" "get_render_template a p = Inr (Some t)"
    "keys t ''SEQ'' = Some sequence_key" "keys t ''version'' = Some version_key"
  then show "get_xml_path a p =
         Inr (path_join (cache_location a) [instance_name a, ''export_preset.xml''],
              py_replace ''{VERSION_PADDING}'' (lstrip ''0'' (format_spec version_key))
               (py_replace ''{FRAME_PADDING}'' (lstrip ''0'' (format_spec sequence_key)) xml))"
    by (simp add: get_xml_path_def write_content_to_file_def)
next
  let ?r = "resolve_flame_template (shot_parent_entity_type a)"
  let ?content = "scaffold_head (preset_version a) @ video @
          scaffold_to_frame_padding @ lstrip ''0'' (format_spec sequence_key) @
          scaffold_to_segment_clip @ cgi_escape (?r (template_definition segment_clip_template)) @
          scaffold_to_version_padding @ lstrip ''0'' (format_spec version_key) @
          scaffold_to_batch @ cgi_escape (?r (template_definition batch_template)) @
          scaffold_to_shot_clip @ cgi_escape (?r (template_definition shot_clip_template)) @
          scaffold_tail"
  assume "get_render_template a p = Inr (Some t)"
    "keys t ''SEQ'' = Some sequence_key" "keys t ''version'' = Some version_key"
    "get_template a ''batch_template'' = Some batch_template"
    "get_template a ''shot_clip_template'' = Some shot_clip_template"
    "get_template a ''segment_clip_template'' = Some segment_clip_template"
    "get_name p = Inr preset_name"
    "get_video_preset a preset_name (cgi_escape (?r (template_definition t))) True = Inr video"
    "CHR ''{'' \<notin> set (preset_version a)" "CHR ''{'' \<notin> set video"
    "CHR ''{'' \<notin> set (?r (template_definition segment_clip_template))"
    "CHR ''{'' \<notin> set (?r (template_definition batch_template))"
    "CHR ''{'' \<notin> set (?r (template_definition shot_clip_template))"
    "CHR ''{'' \<notin> set (lstrip ''0'' (format_spec sequence_key))"
  then have "get_xml_path a p =
      Inr (path_join (cache_location a) [instance_name a, ''export_preset.xml''], ?content)"
    by (intro get_xml_path_content)
  moreover have "sublist (''<framePadding>'' @ lstrip ''0'' (format_spec sequence_key) @ ''</framePadding>'')
      ?content"
    using sublist_between [OF scaffold_tags(1) scaffold_tags(2),
        of "lstrip ''0'' (format_spec sequence_key)" "scaffold_head (preset_version a) @ video"]
    by simp
  moreover have "sublist (''<padding>'' @ lstrip ''0'' (format_spec version_key) @ ''</padding>'')
      ?content"
    using sublist_between [OF scaffold_tags(3) scaffold_tags(4),
        of "lstrip ''0'' (format_spec version_key)"
          "scaffold_head (preset_version a) @ video @
          scaffold_to_frame_padding @ lstrip ''0'' (format_spec sequence_key) @
          scaffold_to_segment_clip @ cgi_escape (?r (template_definition segment_clip_template))"]
    by simp
  ultimately show "\<exists>path content. get_xml_path a p = Inr (path, content) \<and>
          sublist (''<framePadding>'' @ lstrip ''0'' (format_spec sequence_key) @ ''</framePadding>'')
            content \<and>
          sublist (''<padding>'' @ lstrip ''0'' (format_spec version_key) @ ''</padding>'') content"
    by blast
qed

theorem padding_strips_leading_zeroes_witness:
  "xml_with_templates demo_app (ExportPreset demo_raw) = Inr demo_xml
   \<and> get_render_template demo_app (ExportPreset demo_raw) = Inr (Some demo_render_template)
   \<and> keys demo_render_template ''SEQ'' = Some \<lparr>format_spec = ''04''\<rparr>
   \<and> keys demo_render_template ''version'' = Some \<lparr>format_spec = ''03''\<rparr>
   \<and> get_xml_path demo_app (ExportPreset demo_raw) =
       Inr (''/cache/tk-flame-export/export_preset.xml'',
            py_replace ''{VERSION_PADDING}'' ''3'' (py_replace ''{FRAME_PADDING}'' ''4'' demo_xml))
   \<and> sublist ''<framePadding>4</framePadding>''
         (py_replace ''{VERSION_PADDING}'' ''3'' (py_replace ''{FRAME_PADDING}'' ''4'' demo_xml))
   \<and> sublist ''<padding>3</padding>''
         (py_replace ''{VERSION_PADDING}'' ''3'' (py_replace ''{FRAME_PADDING}'' ''4'' demo_xml))"
proof -
  let ?p = "ExportPreset demo_raw"
  let ?content = "py_replace ''{VERSION_PADDING}'' ''3'' (py_replace ''{FRAME_PADDING}'' ''4'' demo_xml)"
  note inst = padding_strips_leading_zeroes
            [of "''0''" demo_app ?p demo_xml demo_render_template
                "\<lparr>format_spec = ''04''\<rparr>" "\<lparr>format_spec = ''03''\<rparr>"
                demo_quicktime_template demo_quicktime_template demo_quicktime_template
                "CStr ''10 bit DPX''" "''<video />''"]
  have xml: "xml_with_templates demo_app ?p = Inr demo_xml"
    by (simp add: xml_with_templates_def resolve_flame_templates_def get_render_template_def
          definition_of_def get_name_def demo_app_def demo_raw_def demo_render_template_def
          demo_quicktime_template_def demo_xml_def Let_def)
  have rt: "get_render_template demo_app ?p = Inr (Some demo_render_template)"
    by (simp add: get_render_template_def demo_app_def demo_raw_def)
  have k: "keys demo_render_template ''SEQ'' = Some \<lparr>format_spec = ''04''\<rparr>"
    "keys demo_render_template ''version'' = Some \<lparr>format_spec = ''03''\<rparr>"
    by (simp_all add: demo_render_template_def)
  have strip: "lstrip ''0'' ''04'' = ''4''" "lstrip ''0'' ''03'' = ''3''"
    by (simp_all add: lstrip_def)
  have path: "path_join (cache_location demo_app) [instance_name demo_app, ''export_preset.xml''] =
      ''/cache/tk-flame-export/export_preset.xml''"
    by (simp add: demo_app_def suffix_to_prefix)
  from inst xml rt k have "get_xml_path demo_app ?p =
      Inr (path_join (cache_location demo_app) [instance_name demo_app, ''export_preset.xml''],
           py_replace ''{VERSION_PADDING}'' (lstrip ''0'' ''03'')
             (py_replace ''{FRAME_PADDING}'' (lstrip ''0'' ''04'') demo_xml))"
    by simp
  then have whole: "get_xml_path demo_app ?p =
      Inr (''/cache/tk-flame-export/export_preset.xml'', ?content)"
    by (simp only: strip path)
  have tmpl: "get_template demo_app ''batch_template'' = Some demo_quicktime_template"
    "get_template demo_app ''shot_clip_template'' = Some demo_quicktime_template"
    "get_template demo_app ''segment_clip_template'' = Some demo_quicktime_template"
    "get_name ?p = Inr (CStr ''10 bit DPX'')"
    "get_video_preset demo_app (CStr ''10 bit DPX'')
       (cgi_escape (resolve_flame_template (shot_parent_entity_type demo_app)
          (template_definition demo_render_template))) True = Inr ''<video />''"
    "CHR ''{'' \<notin> set (preset_version demo_app)" "CHR ''{'' \<notin> set ''<video />''"
    by (simp_all add: demo_app_def get_name_def demo_raw_def)
  have "resolve_flame_template ''Sequence'' ''{Shot}/{segment_name}.mov'' =
      ''<shot name>/<segment name><ext>''"
    by code_simp
  then have plain: "CHR ''{'' \<notin> set (resolve_flame_template (shot_parent_entity_type demo_app)
      (template_definition demo_quicktime_template))"
    by (simp add: demo_app_def demo_quicktime_template_def)
  have fp: "CHR ''{'' \<notin> set (lstrip ''0'' (format_spec \<lparr>format_spec = ''04''\<rparr>))"
    by (simp add: lstrip_def)
  from inst rt k tmpl plain fp
  obtain path content where
    c: "get_xml_path demo_app ?p = Inr (path, content)"
       "sublist (''<framePadding>'' @ lstrip ''0'' (format_spec \<lparr>format_spec = ''04''\<rparr>) @
                 ''</framePadding>'') content"
       "sublist (''<padding>'' @ lstrip ''0'' (format_spec \<lparr>format_spec = ''03''\<rparr>) @
                 ''</padding>'') content"
    by blast
  from c(1) whole have "content = ?content" by simp
  with c(2,3) have "sublist ''<framePadding>4</framePadding>'' ?content"
    "sublist ''<padding>3</padding>'' ?content"
    by (simp_all add: strip)
  with xml rt k whole show ?thesis by simp
qed

end
